theory Spec2Isabelle
  imports Main "HOL-Library.AList"
begin

section \<open>JavaScript values as the program uses them\<close>

text \<open>
  A JavaScript string is a sequence of UTF-16 code units. The model uses \<open>string\<close>, whose
  characters stand for the code units below 256 (ASCII and Latin-1); \<open>length\<close> counts code
  units as \<open>.length\<close> does. An optional value (\<open>undefined\<close>, a missing key, a missing
  field) is \<open>None\<close>. A plain object is an association list in insertion order, written
  with \<open>AList.update\<close>: assigning to a key that exists keeps its position, a new key goes
  last (the special position JavaScript gives to integer-like keys is not modelled).
\<close>

datatype json =
    JNull
  | JBool bool
  | JNum int
  | JStr string
  | JArr "json list"
  | JObj "(string \<times> json) list"

text \<open>Truthiness of a parsed JSON value (numbers are integers in this model).\<close>

fun truthy :: "json \<Rightarrow> bool" where
  "truthy JNull = False"
| "truthy (JBool b) = b"
| "truthy (JNum n) = (n \<noteq> 0)"
| "truthy (JStr s) = (s \<noteq> [])"
| "truthy (JArr xs) = True"
| "truthy (JObj kvs) = True"

text \<open>\<open>x || d\<close> on an optional string: the empty string is falsy.\<close>

definition str_or :: "string option \<Rightarrow> string \<Rightarrow> string" where
  "str_or x d = (case x of None \<Rightarrow> d | Some s \<Rightarrow> if s = [] then d else s)"

definition is_ws :: "char \<Rightarrow> bool" where
  \<comment> \<open>the class \<open>\s\<close> below code unit 256: tab, LF, VT, FF, CR, space, NBSP\<close>
  "is_ws c = (c \<in> set [CHR 0x09, CHR 0x0A, CHR 0x0B, CHR 0x0C, CHR 0x0D, CHR 0x20, CHR 0xA0])"

definition is_lower_alnum :: "char \<Rightarrow> bool" where
  \<comment> \<open>the class \<open>[a-z0-9]\<close>\<close>
  "is_lower_alnum c =
     (let n = (of_char c :: nat) in (97 \<le> n \<and> n \<le> 122) \<or> (48 \<le> n \<and> n \<le> 57))"

definition is_name_char :: "char \<Rightarrow> bool" where
  \<comment> \<open>the class \<open>[a-z0-9_]\<close>\<close>
  "is_name_char c = (is_lower_alnum c \<or> c = CHR ''_'')"

definition lower_char :: "char \<Rightarrow> char" where
  \<comment> \<open>A-Z and the Latin-1 capitals (all but the multiplication sign) move up by 32\<close>
  "lower_char c =
     (let n = (of_char c :: nat) in
      if (65 \<le> n \<and> n \<le> 90) \<or> (192 \<le> n \<and> n \<le> 214) \<or> (216 \<le> n \<and> n \<le> 222)
      then char_of (n + 32) else c)"

definition toLowerCase :: "string \<Rightarrow> string" where
  "toLowerCase s = map lower_char s"

fun join :: "string \<Rightarrow> string list \<Rightarrow> string" where
  "join sep [] = []"
| "join sep [x] = x"
| "join sep (x # y # ys) = x @ sep @ join sep (y # ys)"

text \<open>\<open>s.split(/\s+/)\<close>: the pieces between the maximal runs of white space.\<close>

fun split_ws :: "string \<Rightarrow> string list" where
  "split_ws [] = [[]]"
| "split_ws (c # cs) =
     (if is_ws c then (if cs \<noteq> [] \<and> is_ws (hd cs) then split_ws cs else [] # split_ws cs)
      else (case split_ws cs of [] \<Rightarrow> [[c]] | p # ps \<Rightarrow> (c # p) # ps))"

text \<open>\<open>s.split(d)\<close> for a one-character separator.\<close>

fun split_on :: "char \<Rightarrow> string \<Rightarrow> string list" where
  "split_on d [] = [[]]"
| "split_on d (c # cs) =
     (if c = d then [] # split_on d cs
      else (case split_on d cs of [] \<Rightarrow> [[c]] | p # ps \<Rightarrow> (c # p) # ps))"

definition trim :: "string \<Rightarrow> string" where
  "trim s = rev (dropWhile is_ws (rev (dropWhile is_ws s)))"

text \<open>\<open>s.replace(/\s+/g, '_')\<close>: one underscore for each maximal run of white space.\<close>

fun replace_ws_runs :: "string \<Rightarrow> string" where
  "replace_ws_runs [] = []"
| "replace_ws_runs (c # cs) =
     (if is_ws c
      then (if cs \<noteq> [] \<and> is_ws (hd cs) then replace_ws_runs cs
            else CHR ''_'' # replace_ws_runs cs)
      else c # replace_ws_runs cs)"

text \<open>\<open>s.replace(/^_+|_+$/g, '')\<close>: the leading and the trailing run of underscores go.\<close>

definition strip_underscores :: "string \<Rightarrow> string" where
  "strip_underscores s =
     rev (dropWhile (\<lambda>c. c = CHR ''_'') (rev (dropWhile (\<lambda>c. c = CHR ''_'') s)))"

definition endsWith :: "string \<Rightarrow> string \<Rightarrow> bool" where
  "endsWith s suf = (length suf \<le> length s \<and> drop (length s - length suf) s = suf)"

fun str_includes :: "string \<Rightarrow> string \<Rightarrow> bool" where
  "str_includes [] sub = (sub = [])"
| "str_includes (c # cs) sub = (take (length sub) (c # cs) = sub \<or> str_includes cs sub)"

section \<open>The OpenAPI description (the fields the compiler reads)\<close>

datatype 'a or_ref = Ref string | Obj 'a

text \<open>A parameter's schema and a top-level body property: only these fields are read.\<close>

record prop_schema =
  s_type :: "string option"
  s_title :: "string option"
  s_description :: "string option"
  s_format :: "json option"
  s_default :: "json option"
  s_minimum :: "json option"
  s_maximum :: "json option"
  s_enum :: "json option"

record body_schema =
  bs_type :: "string option"
  bs_properties :: "(string \<times> prop_schema or_ref) list option"
  bs_required :: "string list option"

record media_type =
  mt_schema :: "body_schema or_ref option"

record request_body =
  rb_content :: "(string \<times> media_type) list option"

record parameter =
  p_name :: string
  p_in :: string
  p_required :: "bool option"
  p_description :: "string option"
  p_schema :: "prop_schema or_ref option"

record operation =
  op_summary :: "string option"
  op_description :: "string option"
  op_operationId :: "string option"
  op_parameters :: "parameter list option"
  op_requestBody :: "request_body option"
  op_security :: "(string \<times> string list) list list option"

datatype http_method = GET | POST | PUT | DELETE | PATCH

fun method_str :: "http_method \<Rightarrow> string" where
  "method_str GET = ''get''"
| "method_str POST = ''post''"
| "method_str PUT = ''put''"
| "method_str DELETE = ''delete''"
| "method_str PATCH = ''patch''"

fun method_upper :: "http_method \<Rightarrow> string" where
  "method_upper GET = ''GET''"
| "method_upper POST = ''POST''"
| "method_upper PUT = ''PUT''"
| "method_upper DELETE = ''DELETE''"
| "method_upper PATCH = ''PATCH''"

definition methods :: "http_method list" where
  "methods = [GET, POST, PUT, DELETE, PATCH]"

record path_item =
  pi_get :: "operation option"
  pi_post :: "operation option"
  pi_put :: "operation option"
  pi_delete :: "operation option"
  pi_patch :: "operation option"
  pi_parameters :: "parameter list option"

fun pi_method :: "path_item \<Rightarrow> http_method \<Rightarrow> operation option" where
  "pi_method pi GET = pi_get pi"
| "pi_method pi POST = pi_post pi"
| "pi_method pi PUT = pi_put pi"
| "pi_method pi DELETE = pi_delete pi"
| "pi_method pi PATCH = pi_patch pi"

record security_scheme =
  ss_type :: string
  ss_scheme :: "string option"
  ss_in :: "string option"
  ss_name :: "string option"

record document =
  d_servers :: "string list option"
  d_paths :: "(string \<times> path_item option) list option"
  d_security :: "(string \<times> string list) list list option"
  d_securitySchemes :: "(string \<times> security_scheme) list option"

section \<open>The compiler: class OpenAPIToTools\<close>

record converter =
  spec :: document
  baseUrl :: string
  apiKey :: string
  securitySchemes :: "(string \<times> security_scheme) list"
  toolNames :: "(string \<times> string) list"

definition getBaseUrl :: "document \<Rightarrow> string" where
  "getBaseUrl d = (case d_servers d of Some (u # us) \<Rightarrow> u | _ \<Rightarrow> [])"

definition extractSecuritySchemes :: "document \<Rightarrow> (string \<times> security_scheme) list" where
  "extractSecuritySchemes d =
     (case d_securitySchemes d of
        None \<Rightarrow> []
      | Some kvs \<Rightarrow> foldl (\<lambda>schemes (key, scheme). AList.update key scheme schemes) [] kvs)"

definition OpenAPIToTools ::
  "document \<Rightarrow> string \<Rightarrow> (string \<times> string) list option \<Rightarrow> converter" where
  "OpenAPIToTools d key names =
     \<lparr> spec = d, baseUrl = getBaseUrl d, apiKey = key,
       securitySchemes = extractSecuritySchemes d,
       toolNames = (case names of None \<Rightarrow> [] | Some ns \<Rightarrow> ns) \<rparr>"

definition generateToolName :: "converter \<Rightarrow> string \<Rightarrow> http_method \<Rightarrow> operation \<Rightarrow> string" where
  "generateToolName this path method operation =
     (let toolKey = method_str method @ ''_'' @ path in
      if str_or (map_of (toolNames this) toolKey) [] \<noteq> []
      then str_or (map_of (toolNames this) toolKey) []
      else
        (let summary = str_or (op_summary operation) [] in
         if summary \<noteq> [] then
           (let lowered = toLowerCase summary;
                spaced = trim (join '' '' (split_ws lowered));
                underscored = replace_ws_runs spaced;
                cleanSummary = filter is_name_char underscored
            in if CHR ''_'' \<notin> set cleanSummary
               then take 60 (toLowerCase (method_str method) @ ''_'' @ cleanSummary)
               else take 60 cleanSummary)
         else
           (let operationId = str_or (op_operationId operation) [] in
            if operationId \<noteq> [] then
              (let cleanId = toLowerCase
                     (map (\<lambda>c. if is_ws c \<or> c = CHR ''-'' then CHR ''_'' else c) operationId);
                   finalId = filter is_name_char cleanId
               in take 60 (toLowerCase (method_str method) @ ''_'' @ finalId))
            else
              (let pathPart = strip_underscores
                     (map (\<lambda>c. if c = CHR ''-'' then CHR ''_'' else c)
                       (map (\<lambda>c. if c = CHR ''/'' then CHR ''_'' else c)
                         (filter (\<lambda>c. c \<noteq> CHR ''{'' \<and> c \<noteq> CHR ''}'') path)));
                   toolName = toLowerCase (method_str method) @ ''_'' @ pathPart;
                   toolName' = join ''_'' (filter (\<lambda>p. p \<noteq> []) (split_on (CHR ''_'') toolName))
               in take 60 toolName'))))"

text \<open>The JSON schema of one tool: \<open>type: 'object'\<close> and \<open>additionalProperties: false\<close>
  are constants of the source and are left out.\<close>

record out_prop =
  o_type :: string
  o_description :: string
  o_format :: "json option"
  o_default :: "json option"
  o_minimum :: "json option"
  o_maximum :: "json option"
  o_enum :: "json option"

record tool_schema =
  properties :: "(string \<times> out_prop) list"
  required :: "string list"

definition truthy_opt :: "json option \<Rightarrow> json option" where
  \<comment> \<open>\<open>if (x) out.k = x\<close>: the key is set only for a truthy value\<close>
  "truthy_opt x = (case x of Some v \<Rightarrow> if truthy v then Some v else None | None \<Rightarrow> None)"

fun unref :: "prop_schema or_ref \<Rightarrow> prop_schema" where
  \<comment> \<open>\<open>'$ref' in s ? {} : s\<close>\<close>
  "unref (Ref r) = \<lparr> s_type = None, s_title = None, s_description = None,
       s_format = None, s_default = None, s_minimum = None, s_maximum = None, s_enum = None \<rparr>"
| "unref (Obj x) = x"

definition convertParameterToJsonSchema :: "parameter \<Rightarrow> out_prop" where
  "convertParameterToJsonSchema param =
     (let schemaObj = map_option unref (p_schema param) in
      \<lparr> o_type = str_or (Option.bind schemaObj s_type) ''string'',
        o_description = str_or (p_description param) (''Parameter '' @ p_name param),
        o_format = truthy_opt (Option.bind schemaObj s_format),
        o_default = Option.bind schemaObj s_default,
        o_minimum = Option.bind schemaObj s_minimum,
        o_maximum = Option.bind schemaObj s_maximum,
        o_enum = truthy_opt (Option.bind schemaObj s_enum) \<rparr>)"

text \<open>The body of the \<open>Object.entries(schemaProperties).forEach\<close> callback: the property
  written for one top-level body property.\<close>

definition body_prop :: "string \<Rightarrow> prop_schema or_ref \<Rightarrow> out_prop" where
  "body_prop propName propSchema =
     (let propObj = unref propSchema in
      \<lparr> o_type = str_or (s_type propObj) ''string'',
        o_description =
          str_or (s_title propObj) (str_or (s_description propObj) (''Property '' @ propName)),
        o_format = s_format propObj,
        o_default = s_default propObj,
        o_minimum = s_minimum propObj,
        o_maximum = s_maximum propObj,
        o_enum = s_enum propObj \<rparr>)"

text \<open>The schema object the body branch works on: \<open>requestBody.content['application/json']
  .schema\<close>, when it is an object schema (\<open>type === 'object'\<close>) and not a reference.\<close>

definition body_object_schema :: "request_body option \<Rightarrow> body_schema option" where
  "body_object_schema requestBody =
     (case requestBody of
        None \<Rightarrow> None
      | Some rb \<Rightarrow>
         (let content = (case rb_content rb of None \<Rightarrow> [] | Some c \<Rightarrow> c) in
          case map_of content ''application/json'' of
            None \<Rightarrow> None
          | Some jsonContent \<Rightarrow>
             (case mt_schema jsonContent of
                None \<Rightarrow> None
              | Some (Ref r) \<Rightarrow> None
              | Some (Obj schemaObj) \<Rightarrow>
                  if bs_type schemaObj = Some ''object'' then Some schemaObj else None)))"


text \<open>The two locals \<open>properties\<close> and \<open>required\<close> of \<open>convertParametersToJsonSchema\<close>
  as a pair; the callbacks of its three \<open>forEach\<close> loops update them.\<close>

type_synonym schema_state = "(string \<times> out_prop) list \<times> string list"

definition token_property :: out_prop where
  "token_property =
     \<lparr> o_type = ''string'', o_description = ''Skyfire KYA+PAY token for authentication'',
       o_format = None, o_default = None, o_minimum = None, o_maximum = None, o_enum = None \<rparr>"

definition add_parameter :: "schema_state \<Rightarrow> parameter \<Rightarrow> schema_state" where
  "add_parameter st param =
     (AList.update (p_name param) (convertParameterToJsonSchema param) (fst st),
      if p_required param = Some True \<or> p_in param = ''path''
      then snd st @ [p_name param] else snd st)"

definition add_body_property ::
  "string list \<Rightarrow> schema_state \<Rightarrow> string \<times> prop_schema or_ref \<Rightarrow> schema_state" where
  "add_body_property schemaRequired st entry =
     (AList.update (fst entry) (body_prop (fst entry) (snd entry)) (fst st),
      if fst entry \<in> set schemaRequired then snd st @ [fst entry] else snd st)"

definition add_missing_required :: "string list \<Rightarrow> string \<Rightarrow> string list" where
  "add_missing_required req propName = (if propName \<in> set req then req else req @ [propName])"

definition collect_parameters :: "parameter list \<Rightarrow> request_body option \<Rightarrow> schema_state" where
  "collect_parameters parameters requestBody =
     (let st1 = foldl add_parameter ([(''skyfire_kya_pay_token'', token_property)], []) parameters
      in case body_object_schema requestBody of
           None \<Rightarrow> st1
         | Some schemaObj \<Rightarrow>
            (let schemaProperties = (case bs_properties schemaObj of None \<Rightarrow> [] | Some ps \<Rightarrow> ps);
                 schemaRequired = (case bs_required schemaObj of None \<Rightarrow> [] | Some r \<Rightarrow> r);
                 st2 = foldl (add_body_property schemaRequired) st1 schemaProperties
             in (fst st2,
                 if schemaRequired = [''string'']
                 then foldl add_missing_required (snd st2) (map fst schemaProperties)
                 else snd st2)))"

definition convertParametersToJsonSchema ::
  "parameter list \<Rightarrow> request_body option \<Rightarrow> tool_schema" where
  "convertParametersToJsonSchema parameters requestBody =
     (let st = collect_parameters parameters requestBody;
          validRequired = filter (\<lambda>r. r \<in> fst ` set (fst st)) (snd st);
          finalRequired = map fst (fst st)
      in \<lparr> properties = fst st, required = finalRequired \<rparr>)"

text \<open>A compiled tool. The executor is the closure of \<open>createExecuteFunction\<close>: the model
  keeps what it captures (the converter, the path, the method, the parameters and the
  operation) and runs it with \<open>execute\<close> below.\<close>

record tool_definition =
  description :: string
  parameters :: tool_schema
  ex_this :: converter
  ex_path :: string
  ex_method :: http_method
  ex_parameters :: "parameter list"
  ex_operation :: operation

text \<open>The callback of \<open>methods.forEach\<close> in \<open>generateTools\<close>: one method of one path.\<close>

definition compile_method ::
  "converter \<Rightarrow> string \<Rightarrow> path_item \<Rightarrow> (string \<times> tool_definition) list \<Rightarrow> http_method
     \<Rightarrow> (string \<times> tool_definition) list" where
  "compile_method this path pathItem tools method =
     (case pi_method pathItem method of
        None \<Rightarrow> tools
      | Some operation \<Rightarrow>
         (let toolName = generateToolName this path method operation;
              params = (case pi_parameters pathItem of None \<Rightarrow> [] | Some ps \<Rightarrow> ps) @
                       (case op_parameters operation of None \<Rightarrow> [] | Some ps \<Rightarrow> ps);
              descr = str_or (op_summary operation)
                        (str_or (op_description operation) (method_upper method @ '' '' @ path))
                      @ '' Requires skyfire_kya_pay_token parameter for authentication.'';
              toolSchema = convertParametersToJsonSchema params (op_requestBody operation)
          in AList.update toolName
               \<lparr> description = descr, parameters = toolSchema, ex_this = this, ex_path = path,
                 ex_method = method, ex_parameters = params, ex_operation = operation \<rparr>
               tools))"

text \<open>The callback of \<open>Object.entries(paths).forEach\<close>: one path.\<close>

definition compile_path ::
  "converter \<Rightarrow> (string \<times> tool_definition) list \<Rightarrow> string \<times> path_item option
     \<Rightarrow> (string \<times> tool_definition) list" where
  "compile_path this tools entry =
     (case snd entry of
        None \<Rightarrow> tools
      | Some pathItem \<Rightarrow> foldl (compile_method this (fst entry) pathItem) tools methods)"

definition generateTools :: "converter \<Rightarrow> (string \<times> tool_definition) list" where
  "generateTools this =
     foldl (compile_path this) [] (case d_paths (spec this) of None \<Rightarrow> [] | Some ps \<Rightarrow> ps)"

section \<open>The executor of a compiled tool\<close>

text \<open>Decimal digits of a natural number: what \<open>String(n)\<close> and a template literal give
  for a non-negative integer below \<open>10^21\<close> (an HTTP status, a counter).\<close>

definition digit_char :: "nat \<Rightarrow> char" where
  "digit_char d = ''0123456789'' ! d"

function string_of_nat :: "nat \<Rightarrow> string" where
  "string_of_nat n =
     (if n < 10 then [digit_char n] else string_of_nat (n div 10) @ [digit_char (n mod 10)])"
  by pat_completeness auto
termination
  by (relation "measure id") auto

declare string_of_nat.simps [simp del]

definition string_of_int :: "int \<Rightarrow> string" where
  "string_of_int i = (if i < 0 then CHR ''-'' # string_of_nat (nat (- i)) else string_of_nat (nat i))"

text \<open>\<open>String(v)\<close> for a parsed JSON value. Numbers are integers in this model, written in
  decimal (JavaScript switches to exponent notation from \<open>10^21\<close> on, which is outside
  the model). An array joins its elements with commas, \<open>null\<close> elements as empty strings.\<close>

fun js_String :: "json \<Rightarrow> string" where
  "js_String JNull = ''null''"
| "js_String (JBool b) = (if b then ''true'' else ''false'')"
| "js_String (JNum n) = string_of_int n"
| "js_String (JStr s) = s"
| "js_String (JArr xs) = join '','' (map (\<lambda>x. if x = JNull then [] else js_String x) xs)"
| "js_String (JObj kvs) = ''[object Object]''"

text \<open>\<open>Buffer.from(s).toString('base64')\<close>: the UTF-8 bytes of the string, in base 64.\<close>

definition utf8_bytes :: "string \<Rightarrow> nat list" where
  "utf8_bytes s = concat (map (\<lambda>c. let n = (of_char c :: nat) in
       if n < 128 then [n] else [192 + n div 64, 128 + n mod 64]) s)"

definition b64_char :: "nat \<Rightarrow> char" where
  "b64_char n =
     (if n < 26 then char_of (65 + n)
      else if n < 52 then char_of (97 + (n - 26))
      else if n < 62 then char_of (48 + (n - 52))
      else if n = 62 then CHR ''+'' else CHR ''/'')"

fun b64_groups :: "nat list \<Rightarrow> string" where
  "b64_groups (a # b # c # rest) =
     [b64_char (a div 4), b64_char ((a mod 4) * 16 + b div 16),
      b64_char ((b mod 16) * 4 + c div 64), b64_char (c mod 64)] @ b64_groups rest"
| "b64_groups [a, b] =
     [b64_char (a div 4), b64_char ((a mod 4) * 16 + b div 16), b64_char ((b mod 16) * 4),
      CHR ''='']"
| "b64_groups [a] = [b64_char (a div 4), b64_char ((a mod 4) * 16), CHR ''='', CHR ''='']"
| "b64_groups [] = []"

definition base64 :: "string \<Rightarrow> string" where
  "base64 s = b64_groups (utf8_bytes s)"

text \<open>The headers one security scheme sets (the body of the \<open>switch\<close>).\<close>

definition scheme_headers ::
  "string \<Rightarrow> security_scheme \<Rightarrow> (string \<times> string) list \<Rightarrow> (string \<times> string) list" where
  "scheme_headers key scheme headers =
     (if ss_type scheme = ''http'' then
        (if ss_scheme scheme = Some ''bearer''
         then AList.update ''Authorization'' (''Bearer '' @ key) headers
         else if ss_scheme scheme = Some ''basic''
         then AList.update ''Authorization'' (''Basic '' @ base64 key) headers
         else headers)
      else if ss_type scheme = ''apiKey'' then
        (if ss_in scheme = Some ''header''
         then AList.update (case ss_name scheme of None \<Rightarrow> ''undefined'' | Some n \<Rightarrow> n) key headers
         else headers)
      else if ss_type scheme = ''oauth2''
      then AList.update ''Authorization'' (''Bearer '' @ key) headers
      else headers)"

definition getSecurityHeaders :: "converter \<Rightarrow> operation \<Rightarrow> (string \<times> string) list" where
  "getSecurityHeaders this operation =
     (let headers = [(''Content-Type'', ''application/json'')] in
      if apiKey this = [] then headers
      else
        (let securityRequirements =
               (case op_security operation of
                  Some r \<Rightarrow> r
                | None \<Rightarrow> (case d_security (spec this) of Some r \<Rightarrow> r | None \<Rightarrow> []))
         in foldl
              (\<lambda>headers requirement.
                 foldl
                   (\<lambda>headers (schemeName, scopes).
                      case map_of (securitySchemes this) schemeName of
                        None \<Rightarrow> headers
                      | Some scheme \<Rightarrow> scheme_headers (apiKey this) scheme headers)
                   headers requirement)
              headers securityRequirements))"

text \<open>\<open>str.replace(pattern, replacement)\<close> with a string pattern: the first occurrence is
  replaced, and in the replacement \<open>$$\<close>, \<open>$&\<close>, \<open>$`\<close> and \<open>$'\<close> stand for a dollar sign,
  the match, the text before it and the text after it.\<close>

fun expand_replacement :: "string \<Rightarrow> string \<Rightarrow> string \<Rightarrow> string \<Rightarrow> string" where
  "expand_replacement [] matched pre post = []"
| "expand_replacement [c] matched pre post = [c]"
| "expand_replacement (c # d # r) matched pre post =
     (if c = CHR 0x24 \<and> d = CHR 0x24 then CHR 0x24 # expand_replacement r matched pre post
      else if c = CHR 0x24 \<and> d = CHR ''&'' then matched @ expand_replacement r matched pre post
      else if c = CHR 0x24 \<and> d = CHR 0x60 then pre @ expand_replacement r matched pre post
      else if c = CHR 0x24 \<and> d = CHR 0x27 then post @ expand_replacement r matched pre post
      else c # expand_replacement (d # r) matched pre post)"

fun replace_from :: "string \<Rightarrow> string \<Rightarrow> string \<Rightarrow> string \<Rightarrow> string" where
  "replace_from pat rep pre [] =
     (if pat = [] then pre @ expand_replacement rep [] pre [] else pre)"
| "replace_from pat rep pre (c # cs) =
     (if take (length pat) (c # cs) = pat
      then pre @ expand_replacement rep pat pre (drop (length pat) (c # cs))
           @ drop (length pat) (c # cs)
      else replace_from pat rep (pre @ [c]) cs)"

definition replace_first :: "string \<Rightarrow> string \<Rightarrow> string \<Rightarrow> string" where
  "replace_first s pat rep = replace_from pat rep [] s"

text \<open>The request handed to \<open>fetch\<close>. The query string and the body are kept structured:
  \<open>URLSearchParams.toString\<close> (empty exactly when there is no entry) and \<open>JSON.stringify\<close>
  of the body are not spelled out.\<close>

record request =
  rq_url :: string
  rq_query :: "(string \<times> string) list"
  rq_method :: string
  rq_headers :: "(string \<times> string) list"
  rq_body :: "(string \<times> json) list option"

text \<open>A thrown value: an \<open>Error\<close> with its message, or anything else.\<close>

datatype js_error = Error string | Thrown

text \<open>What the executor reads of a response: \<open>json\<close> and \<open>text\<close> are the results of
  \<open>await response.json()\<close> and \<open>await response.text()\<close>, which may throw.\<close>

record response =
  r_status :: nat
  r_statusText :: string
  r_content_type :: "string option"
  r_json :: "js_error + json"
  r_text :: "js_error + string"

definition ok :: "response \<Rightarrow> bool" where
  "ok r = (200 \<le> r_status r \<and> r_status r \<le> 299)"

record content_item =
  ci_type :: "string option"
  ci_text :: "string option"

record tool_outcome =
  content :: "content_item list"

text \<open>The network and \<open>JSON.stringify(_, null, 2)\<close>, as the executor sees them.\<close>

record exec_env =
  fetch :: "request \<Rightarrow> js_error + response"
  stringify :: "json \<Rightarrow> string"

text \<open>The request the executor builds from the arguments.\<close>

definition build_request :: "tool_definition \<Rightarrow> (string \<times> json) list \<Rightarrow> request" where
  "build_request tool args =
     (let this = ex_this tool;
          url0 = baseUrl this @ ex_path tool;
          headers0 = getSecurityHeaders this (ex_operation tool);
          headers1 = (case map_of args ''skyfire_kya_pay_token'' of
                        None \<Rightarrow> headers0
                      | Some v \<Rightarrow> if truthy v
                                  then AList.update ''skyfire_kya_pay_token'' (js_String v) headers0
                                  else headers0);
          (url1, queryParams, headers2) = foldl
            (\<lambda>(url, query, headers) param.
               case map_of args (p_name param) of
                 None \<Rightarrow> (url, query, headers)
               | Some v \<Rightarrow>
                   if p_in param = ''path''
                   then (replace_first url (''{'' @ p_name param @ ''}'') (js_String v), query, headers)
                   else if p_in param = ''query''
                   then (url, query @ [(p_name param, js_String v)], headers)
                   else if p_in param = ''header''
                   then (url, query, AList.update (p_name param) (js_String v) headers)
                   else (url, query, headers))
            (url0, [], headers1) (ex_parameters tool);
          body = (if ex_method tool \<in> {POST, PUT, PATCH} then
                    (let paramNames = map p_name (ex_parameters tool);
                         bodyParams = foldl
                           (\<lambda>bodyParams (key, v).
                              if key \<notin> set paramNames \<and> key \<noteq> ''skyfire_kya_pay_token''
                              then AList.update key v bodyParams else bodyParams)
                           [] args
                     in if bodyParams \<noteq> [] then Some bodyParams else None)
                  else None)
      in \<lparr> rq_url = url1, rq_query = queryParams, rq_method = method_upper (ex_method tool),
           rq_headers = headers2, rq_body = body \<rparr>)"

text \<open>The message of a failed HTTP call: the inner \<open>try\<close> reads \<open>errorData.error\<close> of the
  JSON body and falls back to the status text when that is falsy; reading a property of
  \<open>null\<close> throws, and the inner \<open>catch\<close> gives the status text as for a body that does
  not parse.\<close>

definition error_of_body :: "response \<Rightarrow> string" where
  "error_of_body r =
     (case r_json r of
        Inl e \<Rightarrow> r_statusText r
      | Inr JNull \<Rightarrow> r_statusText r
      | Inr (JObj kvs) \<Rightarrow>
          (case map_of kvs ''error'' of
             None \<Rightarrow> r_statusText r
           | Some v \<Rightarrow> if truthy v then js_String v else r_statusText r)
      | Inr other \<Rightarrow> r_statusText r)"

definition text_outcome :: "string \<Rightarrow> tool_outcome" where
  "text_outcome t = \<lparr> content = [\<lparr> ci_type = Some ''text'', ci_text = Some t \<rparr>] \<rparr>"

text \<open>The body of the outer \<open>try\<close>: \<open>Inl\<close> is a throw.\<close>

definition execute_try :: "exec_env \<Rightarrow> tool_definition \<Rightarrow> (string \<times> json) list \<Rightarrow> js_error + tool_outcome" where
  "execute_try env tool args =
     (case fetch env (build_request tool args) of
        Inl e \<Rightarrow> Inl e
      | Inr r \<Rightarrow>
          if \<not> ok r
          then Inl (Error (''HTTP error! status: '' @ string_of_nat (r_status r) @ '', message: ''
                           @ error_of_body r))
          else
            (let json_type = (case r_content_type r of
                                None \<Rightarrow> False
                              | Some t \<Rightarrow> str_includes t ''application/json'')
             in if json_type
                then (case r_json r of
                        Inl e \<Rightarrow> Inl e
                      | Inr responseData \<Rightarrow> Inr (text_outcome (stringify env responseData)))
                else (case r_text r of
                        Inl e \<Rightarrow> Inl e
                      | Inr responseData \<Rightarrow> Inr (text_outcome (stringify env (JStr responseData))))))"

text \<open>The executor: the outer \<open>catch\<close> turns every throw into a text outcome.\<close>

definition execute :: "exec_env \<Rightarrow> tool_definition \<Rightarrow> (string \<times> json) list \<Rightarrow> tool_outcome" where
  "execute env tool args =
     (case execute_try env tool args of
        Inr outcome \<Rightarrow> outcome
      | Inl (Error message) \<Rightarrow> text_outcome (''Error: '' @ message)
      | Inl Thrown \<Rightarrow> text_outcome (''Error: An unknown error occurred''))"

section \<open>The usage counter (lib/redis)\<close>

text \<open>
  The Redis server as the three functions use it: the keys with their string values and
  the time to live last set on each (\<open>None\<close>: no expiry), whether commands reach the
  server, the message of the error a command throws when they do not, and the commands
  issued so far. The passing of time is not modelled: an entry stays until it is
  overwritten. \<open>has_client\<close> and \<open>redisConnectionError\<close> are the two module variables
  \<open>redis\<close> (not null) and \<open>redisConnectionError\<close>.
\<close>

record redis_entry =
  re_value :: string
  re_ttl :: "nat option"

datatype redis_command = PING | GET_key string | INCR string | EXPIRE string nat

record redis_world =
  has_client :: bool
  redisConnectionError :: "string option"
  reachable :: bool
  failure :: js_error
  entries :: "string \<Rightarrow> redis_entry option"
  commands :: "redis_command list"

text \<open>Redis reads a stored value as a 64-bit signed integer: an optional minus sign and
  digits, no leading zero, no white space.\<close>

definition is_digit :: "char \<Rightarrow> bool" where
  "is_digit c = (let n = (of_char c :: nat) in 48 \<le> n \<and> n \<le> 57)"

definition digit_val :: "char \<Rightarrow> nat" where
  "digit_val c = of_char c - 48"

definition nat_of_digits :: "string \<Rightarrow> nat" where
  "nat_of_digits ds = foldl (\<lambda>acc c. acc * 10 + digit_val c) 0 ds"

definition redis_integer :: "string \<Rightarrow> int option" where
  "redis_integer s =
     (let (neg, ds) = (case s of c # r \<Rightarrow> if c = CHR ''-'' then (True, r) else (False, s)
                               | [] \<Rightarrow> (False, s));
          v = (if neg then - int (nat_of_digits ds) else int (nat_of_digits ds))
      in if ds = [] \<or> \<not> list_all is_digit ds \<or> (hd ds = CHR ''0'' \<and> (neg \<or> length ds > 1))
            \<or> v < - (2 ^ 63) \<or> v > 2 ^ 63 - 1
         then None else Some v)"

definition redis_ping :: "redis_world \<Rightarrow> redis_world \<times> (js_error + unit)" where
  "redis_ping w =
     (let w' = w\<lparr> commands := commands w @ [PING] \<rparr>
      in if reachable w then (w', Inr ()) else (w', Inl (failure w)))"

definition redis_get :: "redis_world \<Rightarrow> string \<Rightarrow> redis_world \<times> (js_error + string option)" where
  "redis_get w key =
     (let w' = w\<lparr> commands := commands w @ [GET_key key] \<rparr>
      in if reachable w then (w', Inr (map_option re_value (entries w key)))
         else (w', Inl (failure w)))"

definition redis_incr :: "redis_world \<Rightarrow> string \<Rightarrow> redis_world \<times> (js_error + int)" where
  "redis_incr w key =
     (let w' = w\<lparr> commands := commands w @ [INCR key] \<rparr>
      in if \<not> reachable w then (w', Inl (failure w))
         else case entries w key of
                None \<Rightarrow> (w'\<lparr> entries := (entries w)(key \<mapsto> \<lparr> re_value = ''1'', re_ttl = None \<rparr>) \<rparr>,
                          Inr 1)
              | Some e \<Rightarrow>
                 (case redis_integer (re_value e) of
                    None \<Rightarrow> (w', Inl (Error ''ERR value is not an integer or out of range''))
                  | Some v \<Rightarrow>
                     if v = 2 ^ 63 - 1
                     then (w', Inl (Error ''ERR increment or decrement would overflow''))
                     else (w'\<lparr> entries := (entries w)(key \<mapsto> e\<lparr> re_value := string_of_int (v + 1) \<rparr>) \<rparr>,
                           Inr (v + 1))))"

definition redis_expire :: "redis_world \<Rightarrow> string \<Rightarrow> nat \<Rightarrow> redis_world \<times> (js_error + int)" where
  "redis_expire w key seconds =
     (let w' = w\<lparr> commands := commands w @ [EXPIRE key seconds] \<rparr>
      in if \<not> reachable w then (w', Inl (failure w))
         else case entries w key of
                None \<Rightarrow> (w', Inr 0)
              | Some e \<Rightarrow> (w'\<lparr> entries := (entries w)(key \<mapsto> e\<lparr> re_ttl := Some seconds \<rparr>) \<rparr>, Inr 1))"

text \<open>\<open>parseInt(s, 10)\<close>: leading white space, an optional sign, then the longest run of
  digits; \<open>None\<close> is \<open>NaN\<close>. (The rounding of integers beyond \<open>2^53\<close> is not modelled.)\<close>

definition parseInt :: "string \<Rightarrow> int option" where
  "parseInt s =
     (let t = dropWhile is_ws s;
          (neg, r) = (case t of c # r \<Rightarrow> if c = CHR ''-'' then (True, r)
                                         else if c = CHR ''+'' then (False, r) else (False, t)
                              | [] \<Rightarrow> (False, t));
          ds = takeWhile is_digit r
      in if ds = [] then None
         else Some (if neg then - int (nat_of_digits ds) else int (nat_of_digits ds)))"

text \<open>A number in a template literal.\<close>

definition number_str :: "int option \<Rightarrow> string" where
  "number_str n = (case n of None \<Rightarrow> ''NaN'' | Some i \<Rightarrow> string_of_int i)"

text \<open>\<open>a >= b\<close> on numbers: false when either side is \<open>NaN\<close>.\<close>

definition js_ge :: "int option \<Rightarrow> int option \<Rightarrow> bool" where
  "js_ge a b = (case (a, b) of (Some x, Some y) \<Rightarrow> x \<ge> y | _ \<Rightarrow> False)"

definition error_message :: "js_error \<Rightarrow> string \<Rightarrow> string" where
  \<comment> \<open>\<open>error instanceof Error ? error.message : fallback\<close>\<close>
  "error_message e fallback = (case e of Error m \<Rightarrow> m | Thrown \<Rightarrow> fallback)"

definition usageKey :: "string \<Rightarrow> string" where
  "usageKey today = ''usage:'' @ today"

record connection_status =
  connected :: bool
  cs_error :: "string option"

definition checkRedisConnection :: "redis_world \<Rightarrow> redis_world \<times> connection_status" where
  "checkRedisConnection w =
     (if \<not> has_client w
      then (w, \<lparr> connected = False,
                cs_error = Some (str_or (redisConnectionError w) ''Redis not initialized'') \<rparr>)
      else case redis_ping w of
             (w', Inr u) \<Rightarrow> (w', \<lparr> connected = True, cs_error = None \<rparr>)
           | (w', Inl e) \<Rightarrow>
               (w', \<lparr> connected = False, cs_error = Some (error_message e ''Unknown Redis error'') \<rparr>))"

record limit_status =
  limitExceeded :: bool
  ls_error :: "string option"
  currentUsage :: "int option"

definition checkDailyRunLimit ::
  "redis_world \<Rightarrow> string \<Rightarrow> int option \<Rightarrow> redis_world \<times> limit_status" where
  "checkDailyRunLimit w today dailyCap =
     (if \<not> has_client w
      then (w, \<lparr> limitExceeded = False,
                ls_error = Some (str_or (redisConnectionError w) ''Redis not available''),
                currentUsage = Some 0 \<rparr>)
      else case redis_get w (usageKey today) of
             (w', Inl e) \<Rightarrow>
               (w', \<lparr> limitExceeded = False,
                      ls_error = Some (error_message e ''Unknown Redis error''),
                      currentUsage = Some 0 \<rparr>)
           | (w', Inr current) \<Rightarrow>
               (let count = (if str_or current [] \<noteq> [] then parseInt (str_or current [])
                             else Some 0)
                in if js_ge count dailyCap
                   then (w', \<lparr> limitExceeded = True, ls_error = None, currentUsage = count \<rparr>)
                   else (w', \<lparr> limitExceeded = False, ls_error = None, currentUsage = count \<rparr>)))"

definition incrementDailyRunCounter :: "redis_world \<Rightarrow> string \<Rightarrow> redis_world \<times> int" where
  "incrementDailyRunCounter w today =
     (if \<not> has_client w then (w, 1)
      else case redis_incr w (usageKey today) of
             (w1, Inl e) \<Rightarrow> (w1, 1)
           | (w1, Inr newCount) \<Rightarrow>
               if newCount = 1
               then (case redis_expire w1 (usageKey today) 86400 of
                       (w2, Inl e) \<Rightarrow> (w2, 1)
                     | (w2, Inr r) \<Rightarrow> (w2, newCount))
               else (w1, newCount))"

section \<open>The agent (app/actions)\<close>

subsection \<open>Data\<close>

text \<open>A message of the conversation: its role and its content. The content is optional
  because the user's input is \<open>inputObject.prompt\<close>, which may be missing; the messages
  the model produces are kept as the model oracle gives them.\<close>

record message =
  m_role :: string
  m_content :: "string option"

record server =
  sv_url :: "string option"
  sv_headers :: "(string \<times> string) list"

record api_spec_ref =
  as_url :: "string option"
  as_authHeader :: "string option"

record agent_context =
  available_mcp_servers :: "server list"
  dynamically_mounted_server :: "server list"
  openApiSpecs :: "api_spec_ref list"
  conversation_history :: "message list"

record tool_call =
  toolName :: string
  args :: "(string \<times> string) list"

text \<open>A tool result as the formatter reads it: \<open>toolResult.result.content\<close>, \<open>None\<close> when
  the result or its content is missing.\<close>

record tool_result =
  tr_content :: "content_item list option"

record ai_step =
  st_text :: string
  st_toolCalls :: "tool_call list"
  st_toolResults :: "tool_result list"

datatype step_result =
    Null
  | Undefined
  | Raw tool_result
  | DecodedJWT string json json

record formatted_step =
  fs_step :: nat
  fs_text :: string
  fs_tool :: string
  fs_input :: "(string \<times> string) list"
  fs_result :: step_result

record usage =
  promptTokens :: nat
  completionTokens :: nat
  totalTokens :: nat

record model_response =
  g_text :: string
  g_usage :: usage
  g_steps :: "ai_step list"
  g_messages :: "message list"

datatype tool =
    ConnectMcpServerTool
  | ConvertOpenApiSpecToAgentTool
  | CompiledTool tool_definition
  | McpTool "string option" string

text \<open>What the registry builder does to the outside, in order.\<close>

datatype effect =
    FetchDescription "string option"
  | ConnectStreamable "string option"
  | ConnectSse "string option"

text \<open>
  The outside world of one invocation, the same in every round: the language model
  (\<open>generateText\<close> with the history and the registry; it may throw), the fetch and parse
  of an API description, the WHATWG URL parser (\<open>new URL\<close> throws on an invalid URL), the
  tool listing of a protocol server, its resources (the listing may fail as a whole; each
  read may fail), \<open>isJWT\<close> of \<open>lib/utils\<close> and \<open>jwtDecode\<close> (header and payload; it may
  throw), \<open>JSON.parse\<close> of the input string, the environment variables and the date of
  \<open>getCurrentDateString\<close>.
\<close>

record agent_env =
  generateText :: "message list \<Rightarrow> (string \<times> tool) list \<Rightarrow> js_error + model_response"
  fetch_description :: "string option \<Rightarrow> js_error + document"
  valid_url :: "string \<Rightarrow> bool"
  mcp_tools :: "server \<Rightarrow> js_error + string list"
  mcp_resources :: "server \<Rightarrow> js_error + (js_error + string) list"
  isJWT :: "string \<Rightarrow> bool"
  jwtDecode :: "string \<Rightarrow> js_error + json \<times> json"
  json_parse :: "string \<Rightarrow> js_error + (string \<times> string) list"
  SKYFIRE_API_KEY :: "string option"
  TEST_MODE :: "string option"
  DAILY_RUN_CAP :: "string option"
  SKYFIRE_MCP_URL :: "string option"
  today :: string

definition systemPrompt :: string where
  "systemPrompt = ''\<newline><setup>\<newline>You are connected to tools from MCP servers and hosted OpenAPI specs (jsons)\<newline>and are solving problems step by step. To use an OpenAPI spec can do and convert it to a tool, use the convertOpenApiSpecToAgentTool tool.\<newline>Make sure to inlcude the openapi.json at the end of urls\<newline></setup>\<newline>\<newline><procedures>\<newline>Remember to use only the create-kya-pay-token tool from skyfire before using an external service tool call\<newline></procedures>\<newline>\<newline> MCP servers have /mcp or /sse at the end, if it's a json then you would connect via the OpenAPI tool.\<newline><terminate>\<newline>When connect-mcp-server-tool tool is executed, stop the processing immediately.\<newline>You can execute multiple convert-openapi-spec-to-agent-tool calls in sequence, but after all OpenAPI conversions are complete, stop processing.\<newline></terminate>\<newline>\<newline>Make sure to create and pass a token with proper balance before using external services. You may need to re create tokens as you call services again.\<newline>\<newline>Pass in headers skyfire_kya_pay_token with value as the pay token for openapi tool calls.\<newline>''"

definition textConfig :: "(string \<times> string) list" where
  "textConfig =
     [(''find-seller'', ''I will use Skyfire's mcp server resources resources/list to find the Buildship seller for the requested data & retrieve the OpenAPI server URL of the seller''),
      (''create-kya-token'', ''I will use Skyfire's create-kya-token tool to create a KYA token for myself''),
      (''create-payment-token'', ''I will use Skyfire's create-payment-token tool to create a PAY token for the service which is later used by receiver to claim payment''),
      (''create-kya-pay-token'', ''I will use Skyfire's create-kya-pay-token tool to create a KYA+PAY token for the service which is later used by receiver to claim payment''),
      (''execute_companyresearcher_tool'', ''I will use Buildship's Company Researcher tool to get structured company information.''),
      (''execute_researchcompetitors_tool'', ''I will use Buildship's Research Competitors tool to generate a structured competitor analysis''),
      (''export-text-to-pdf'', ''I will export the provided text content to a PDF document with customizable formatting options.''),
      (''connect-mcp-server-tool'', ''Installing MCP server''),
      (''convert-openapi-spec-to-agent-tool'', ''Converting OpenAPI spec to tools...'')]"

subsection \<open>The step formatter\<close>

text \<open>\<open>getDecodedJWT\<close>: the last word of the first content item's text, decoded when
  \<open>isJWT\<close> accepts it. \<open>Inl\<close> is a throw (a missing result, content, item or text, or a
  throw of \<open>jwtDecode\<close>); \<open>Inr None\<close> is \<open>isValidJWT: false\<close>.\<close>

definition getDecodedJWT ::
  "agent_env \<Rightarrow> tool_result option \<Rightarrow> js_error + (string \<times> json \<times> json) option" where
  "getDecodedJWT env toolResult =
     (case toolResult of
        None \<Rightarrow> Inl (Error ''TypeError'')
      | Some tr \<Rightarrow>
         (case tr_content tr of
            None \<Rightarrow> Inl (Error ''TypeError'')
          | Some [] \<Rightarrow> Inl (Error ''TypeError'')
          | Some (item # items) \<Rightarrow>
             (case ci_text item of
                None \<Rightarrow> Inl (Error ''TypeError'')
              | Some tokenRes \<Rightarrow>
                 (let token = last (split_on (CHR '' '') tokenRes)
                  in if isJWT env token
                     then (case jwtDecode env token of
                             Inl e \<Rightarrow> Inl e
                           | Inr (jwtHeader, jwtPayload) \<Rightarrow> Inr (Some (token, jwtHeader, jwtPayload)))
                     else Inr None))))"

definition pushFormattedSteps ::
  "formatted_step list \<Rightarrow> string \<Rightarrow> json \<times> json \<Rightarrow> formatted_step list" where
  "pushFormattedSteps formattedSteps token jwtDecoded =
     formattedSteps @
       [\<lparr> fs_step = 1, fs_text = ''Decoding JWT token...'', fs_tool = ''thinking'', fs_input = [],
          fs_result = DecodedJWT token (fst jwtDecoded) (snd jwtDecoded) \<rparr>]"

text \<open>\<open>getStepDescription\<close>. (A tool name that is a property of \<open>Object.prototype\<close> is
  outside the model: \<open>textConfig\<close> is looked up as a table.)\<close>

definition getStepDescription :: "ai_step \<Rightarrow> tool_call option \<Rightarrow> string" where
  "getStepDescription step toolCall =
     (case toolCall of
        None \<Rightarrow> st_text step
      | Some tc \<Rightarrow>
         (let t = str_or (map_of textConfig (toolName tc)) (st_text step)
          in if toolName tc = ''get-pricing''
             then t @ (case map_of (args tc) ''dataset_id'' of None \<Rightarrow> ''undefined'' | Some d \<Rightarrow> d)
             else t))"

definition token_tools :: "string list" where
  "token_tools = [''create-payment-token'', ''create-kya-token'', ''create-kya-pay-token'',
                  ''create-account'']"

text \<open>The body of the \<open>for\<close> loop of \<open>formatOutput\<close>: tool call \<open>i\<close> of a step.\<close>

definition format_call ::
  "agent_env \<Rightarrow> ai_step \<Rightarrow> formatted_step list \<Rightarrow> nat \<Rightarrow> formatted_step list" where
  "format_call env step formattedSteps i =
     (let toolCall = st_toolCalls step ! i;
          toolResult = (if i < length (st_toolResults step) then Some (st_toolResults step ! i)
                        else None);
          pushed = formattedSteps @
            [\<lparr> fs_step = 1, fs_text = getStepDescription step (Some toolCall),
               fs_tool = (if toolName toolCall \<noteq> [] then toolName toolCall else ''thinking''),
               fs_input = args toolCall,
               fs_result = (case toolResult of None \<Rightarrow> Undefined | Some r \<Rightarrow> Raw r) \<rparr>]
      in if toolName toolCall \<in> set token_tools
         then (case getDecodedJWT env toolResult of
                 Inr (Some (token, jwtHeader, jwtPayload)) \<Rightarrow>
                   pushFormattedSteps pushed token (jwtHeader, jwtPayload)
               | _ \<Rightarrow> pushed)
         else pushed)"

text \<open>The callback of \<open>steps.forEach\<close> in \<open>formatOutput\<close>.\<close>

definition format_step :: "agent_env \<Rightarrow> formatted_step list \<Rightarrow> ai_step \<Rightarrow> formatted_step list" where
  "format_step env formattedSteps step =
     (if length (st_toolCalls step) > 0
      then foldl (format_call env step) formattedSteps [0 ..< length (st_toolCalls step)]
      else formattedSteps @
             [\<lparr> fs_step = 1, fs_text = getStepDescription step None, fs_tool = ''thinking'',
                fs_input = [], fs_result = Null \<rparr>])"

definition formatOutput ::
  "agent_env \<Rightarrow> ai_step list \<Rightarrow> formatted_step list \<Rightarrow> formatted_step list" where
  "formatOutput env steps formattedSteps = foldl (format_step env) formattedSteps steps"

subsection \<open>The bootstrap detector\<close>

text \<open>The context and the three flags of
  \<open>checkAndUpdateAgentContextIfConnectionIsInitiated\<close>.\<close>

record detect_state =
  ds_context :: agent_context
  newToolsFound :: bool
  mcpServerConnected :: bool
  openApiSpecsAdded :: bool

text \<open>The callback of \<open>step.toolCalls.forEach\<close>.\<close>

definition detect_call :: "detect_state \<Rightarrow> tool_call \<Rightarrow> detect_state" where
  "detect_call st toolCall =
     (let st1 =
        (if toolName toolCall = ''connect-mcp-server-tool''
         then st\<lparr> ds_context := (ds_context st)\<lparr> dynamically_mounted_server :=
                      [\<lparr> sv_url = map_of (args toolCall) ''mcpServerUrl'', sv_headers = [] \<rparr>] \<rparr>,
                   mcpServerConnected := True, newToolsFound := True \<rparr>
         else st)
      in if toolName toolCall = ''convert-openapi-spec-to-agent-tool''
         then st1\<lparr> ds_context := (ds_context st1)\<lparr> openApiSpecs :=
                       openApiSpecs (ds_context st1) @
                         [\<lparr> as_url = map_of (args toolCall) ''openApiSpecUrl'',
                            as_authHeader = None \<rparr>] \<rparr>,
                    openApiSpecsAdded := True, newToolsFound := True \<rparr>
         else st1)"

definition detect_step :: "detect_state \<Rightarrow> ai_step \<Rightarrow> detect_state" where
  "detect_step st step = foldl detect_call st (st_toolCalls step)"

definition connected_message :: "bool \<Rightarrow> bool \<Rightarrow> string" where
  "connected_message mcp api =
     (if mcp \<and> api then ''You are now connected to the tools provided by the seller MCP server and OpenAPI specs as well, run tools as per input prompt to solve problems step by step. Remember never use connect-mcp-server-tool on a json url. When connect-mcp-server-tool tool is executed, stop the processing immediately.''
      else if mcp then ''You are now connected to the tools provided by the seller MCP server as well, run tools as per input prompt to solve problems step by step. Remember never use connect-mcp-server-tool on a json url. When connect-mcp-server-tool tool is executed, stop the processing immediately.''
      else if api then ''You are now connected to the tools provided by the OpenAPI spec as well, run tools as per input prompt to solve problems step by step. When connect-mcp-server-tool tool is executed, stop the processing immediately.''
      else [])"

definition checkAndUpdateAgentContextIfConnectionIsInitiated ::
  "ai_step list \<Rightarrow> agent_context \<Rightarrow> bool \<times> agent_context" where
  "checkAndUpdateAgentContextIfConnectionIsInitiated steps agentContext =
     (let st = foldl detect_step
                 \<lparr> ds_context = agentContext, newToolsFound = False,
                   mcpServerConnected = False, openApiSpecsAdded = False \<rparr> steps;
          ctx = ds_context st
      in (newToolsFound st,
          if mcpServerConnected st \<or> openApiSpecsAdded st
          then ctx\<lparr> conversation_history := conversation_history ctx @
                  [\<lparr> m_role = ''system'',
                     m_content = Some (connected_message (mcpServerConnected st)
                                         (openApiSpecsAdded st)) \<rparr>] \<rparr>
          else ctx))"

subsection \<open>The registry builder\<close>

type_synonym registry = "(string \<times> tool) list"

text \<open>An object spread \<open>{...a, ...b}\<close>.\<close>

definition spread :: "('k \<times> 'v) list \<Rightarrow> ('k \<times> 'v) list \<Rightarrow> ('k \<times> 'v) list" where
  "spread a b = foldl (\<lambda>acc kv. AList.update (fst kv) (snd kv) acc) a b"

text \<open>The name-override mapping \<open>toolNames\<close> that \<open>prepareAllTools\<close> builds from the
  operation summaries of one description: the three nested callbacks.\<close>

definition summary_name :: "string \<Rightarrow> string" where
  \<comment> \<open>\<open>String(summary).toLowerCase().replace(/[^a-z0-9]/g, "_")\<close>\<close>
  "summary_name summary = map (\<lambda>c. if is_lower_alnum c then c else CHR ''_'') (toLowerCase summary)"

definition name_of_method ::
  "string \<Rightarrow> path_item \<Rightarrow> (string \<times> string) list \<Rightarrow> http_method \<Rightarrow> (string \<times> string) list" where
  "name_of_method path pathItem names method =
     (case pi_method pathItem method of
        None \<Rightarrow> names
      | Some operation \<Rightarrow>
         (case op_summary operation of
            None \<Rightarrow> names
          | Some summary \<Rightarrow>
              AList.update (method_str method @ ''_'' @ path) (summary_name summary) names))"

definition names_of_path ::
  "(string \<times> string) list \<Rightarrow> string \<times> path_item option \<Rightarrow> (string \<times> string) list" where
  "names_of_path names entry =
     (case snd entry of
        None \<Rightarrow> names
      | Some pathItem \<Rightarrow> foldl (name_of_method (fst entry) pathItem) names methods)"

definition summary_tool_names :: "document \<Rightarrow> (string \<times> string) list" where
  "summary_tool_names d = (case d_paths d of None \<Rightarrow> [] | Some ps \<Rightarrow> foldl names_of_path [] ps)"

text \<open>The tools one fetched description adds.\<close>

definition description_tools :: "document \<Rightarrow> api_spec_ref \<Rightarrow> registry" where
  "description_tools d r =
     map (\<lambda>nt. (fst nt, CompiledTool (snd nt)))
       (generateTools (OpenAPIToTools d (str_or (as_authHeader r) []) (Some (summary_tool_names d))))"

text \<open>The first loop of \<open>prepareAllTools\<close>: every description is fetched and compiled; a
  failed fetch or parse throws.\<close>

fun process_specs ::
  "agent_env \<Rightarrow> api_spec_ref list \<Rightarrow> registry \<Rightarrow> effect list \<times> (js_error + registry)" where
  "process_specs env [] allTools = ([], Inr allTools)"
| "process_specs env (r # rs) allTools =
     (case fetch_description env (as_url r) of
        Inl e \<Rightarrow> ([FetchDescription (as_url r)], Inl e)
      | Inr d \<Rightarrow>
         (let rest = process_specs env rs (spread allTools (description_tools d r))
          in (FetchDescription (as_url r) # fst rest, snd rest)))"

text \<open>The callback of \<open>allServers.filter\<close>.\<close>

definition is_mcp_server_url :: "string \<Rightarrow> bool" where
  "is_mcp_server_url url =
     (let isJsonSpec = endsWith url ''.json'';
          isMcpServer = (endsWith url ''/mcp'' \<or> endsWith url ''/sse''
                         \<or> (\<not> isJsonSpec \<and> \<not> str_includes url ''.json''))
      in if isJsonSpec then False else isMcpServer)"

text \<open>\<open>allServers.filter\<close>: \<open>url.endsWith\<close> throws on a missing url.\<close>

fun filter_servers :: "server list \<Rightarrow> js_error + server list" where
  "filter_servers [] = Inr []"
| "filter_servers (sv # svs) =
     (case sv_url sv of
        None \<Rightarrow> Inl (Error ''TypeError'')
      | Some url \<Rightarrow>
         (case filter_servers svs of
            Inl e \<Rightarrow> Inl e
          | Inr rest \<Rightarrow> Inr (if is_mcp_server_url url then sv # rest else rest)))"

text \<open>The system messages of the resources of one server: the \<open>try\<close> block pushes one per
  resource read and stops at the first failure, which the \<open>catch\<close> swallows.\<close>

definition resource_messages :: "agent_env \<Rightarrow> server \<Rightarrow> message list" where
  "resource_messages env sv =
     (case mcp_resources env sv of
        Inl e \<Rightarrow> []
      | Inr reads \<Rightarrow>
          map (\<lambda>r. \<lparr> m_role = ''system'', m_content = (case r of Inr t \<Rightarrow> Some t | Inl e \<Rightarrow> None) \<rparr>)
            (takeWhile (\<lambda>r. \<not> isl r) reads))"

text \<open>The second loop: each protocol server is connected to in turn. \<open>new URL\<close> throws on
  an invalid URL and a failed connection or tool listing throws; neither is caught.\<close>

fun connect_servers ::
  "agent_env \<Rightarrow> server list \<Rightarrow> registry \<Rightarrow> message list
     \<Rightarrow> effect list \<times> (js_error + registry \<times> message list)" where
  "connect_servers env [] allTools history = ([], Inr (allTools, history))"
| "connect_servers env (sv # svs) allTools history =
     (if \<not> (case sv_url sv of None \<Rightarrow> False | Some u \<Rightarrow> valid_url env u)
      then ([], Inl (Error ''TypeError: Invalid URL''))
      else case mcp_tools env sv of
             Inl e \<Rightarrow> ([ConnectStreamable (sv_url sv)], Inl e)
           | Inr toolSet \<Rightarrow>
              (let rest = connect_servers env svs
                            (spread allTools (map (\<lambda>n. (n, McpTool (sv_url sv) n)) toolSet))
                            (history @ resource_messages env sv)
               in (ConnectStreamable (sv_url sv) # ConnectSse (sv_url sv) # fst rest, snd rest)))"

definition builtin_tools :: registry where
  "builtin_tools = [(''connect-mcp-server-tool'', ConnectMcpServerTool),
                    (''convert-openapi-spec-to-agent-tool'', ConvertOpenApiSpecToAgentTool)]"

definition prepareAllTools ::
  "agent_env \<Rightarrow> agent_context \<Rightarrow> effect list \<times> (js_error + registry \<times> agent_context)" where
  "prepareAllTools env agentContext =
     (let allServers = available_mcp_servers agentContext @ dynamically_mounted_server agentContext
      in case process_specs env (openApiSpecs agentContext) builtin_tools of
           (log1, Inl e) \<Rightarrow> (log1, Inl e)
         | (log1, Inr allTools1) \<Rightarrow>
            (case filter_servers allServers of
               Inl e \<Rightarrow> (log1, Inl e)
             | Inr mcpServers \<Rightarrow>
                (case connect_servers env mcpServers allTools1 (conversation_history agentContext) of
                   (log2, Inl e) \<Rightarrow> (log1 @ log2, Inl e)
                 | (log2, Inr (allTools2, history)) \<Rightarrow>
                     (log1 @ log2,
                      Inr (filter (\<lambda>nt. length (fst nt) \<le> 64) allTools2,
                           agentContext\<lparr> conversation_history := history \<rparr>)))))"

subsection \<open>The orchestration loop\<close>

record run_result =
  rr_answer :: string
  rr_steps :: "formatted_step list"
  rr_usage :: usage
  rr_agentContext :: agent_context

text \<open>
  \<open>runAgent\<close> has no bound on its recursion, so the model counts rounds: \<open>runAgent n\<close> runs
  at most \<open>n\<close> rounds and is \<open>None\<close> when round \<open>n\<close> still asks for another one. A result
  \<open>Some (log, Inl e)\<close> is a rejected promise, \<open>Some (log, Inr r)\<close> the returned document
  (before \<open>JSON.stringify\<close>; the \<open>JSON.parse\<close> of the inner round's document is taken to
  give back its steps). The context is one object shared by all rounds, so the outer
  round returns the context as the inner rounds left it.
\<close>

fun runAgent ::
  "nat \<Rightarrow> agent_env \<Rightarrow> string \<Rightarrow> string option \<Rightarrow> agent_context \<Rightarrow> formatted_step list
     \<Rightarrow> (effect list \<times> (js_error + run_result)) option" where
  "runAgent 0 env key input agentContext initialFormattedSteps = None"
| "runAgent (Suc n) env key input agentContext initialFormattedSteps =
     (case prepareAllTools env agentContext of
        (log, Inl e) \<Rightarrow> Some (log, Inl e)
      | (log, Inr (allTools, ctx1)) \<Rightarrow>
         (let ctx2 = ctx1\<lparr> conversation_history := conversation_history ctx1 @
                             [\<lparr> m_role = ''user'', m_content = input \<rparr>] \<rparr>
          in case generateText env (conversation_history ctx2) allTools of
               Inl e \<Rightarrow> Some (log, Inl e)
             | Inr response \<Rightarrow>
                (let ctx3 = ctx2\<lparr> conversation_history :=
                                    conversation_history ctx2 @ g_messages response \<rparr>;
                     formattedSteps = formatOutput env (g_steps response) initialFormattedSteps;
                     detected = checkAndUpdateAgentContextIfConnectionIsInitiated
                                  (g_steps response) ctx3
                 in if fst detected
                    then (case runAgent n env key input (snd detected) formattedSteps of
                            None \<Rightarrow> None
                          | Some (log', Inl e) \<Rightarrow> Some (log @ log', Inl e)
                          | Some (log', Inr modelResponse) \<Rightarrow>
                              Some (log @ log',
                                    Inr \<lparr> rr_answer = g_text response,
                                          rr_steps = rr_steps modelResponse,
                                          rr_usage = g_usage response,
                                          rr_agentContext = rr_agentContext modelResponse \<rparr>))
                    else Some (log, Inr \<lparr> rr_answer = g_text response, rr_steps = formattedSteps,
                                          rr_usage = g_usage response,
                                          rr_agentContext = snd detected \<rparr>))))"

subsection \<open>The invocation boundary\<close>

datatype agent_input = InputString string | InputRecord "(string \<times> string) list"

text \<open>The error document \<open>{error: true, message, ..., steps: [], usage: null,
  agentContext}\<close>; \<open>redisError\<close>, \<open>dailyCap\<close> and \<open>currentUsage\<close> are the fields the two
  kinds of failure add.\<close>

record error_document =
  ed_message :: string
  ed_redisError :: "bool option"
  ed_dailyCap :: "int option option"
  ed_currentUsage :: "int option option"
  ed_steps :: "formatted_step list"
  ed_usage :: "usage option"
  ed_agentContext :: agent_context

datatype agent_document = ErrorDocument error_document | RunDocument run_result

definition fresh_context :: "agent_env \<Rightarrow> string \<Rightarrow> agent_context" where
  "fresh_context env key =
     \<lparr> available_mcp_servers =
         [\<lparr> sv_url = Some (str_or (SKYFIRE_MCP_URL env) []),
            sv_headers = [(''skyfire-api-key'', key)] \<rparr>],
       dynamically_mounted_server = [],
       openApiSpecs = [],
       conversation_history = [\<lparr> m_role = ''system'', m_content = Some systemPrompt \<rparr>] \<rparr>"

text \<open>The tail of \<open>getAgent\<close>, after the checks: the fresh context, the input object, the
  run.\<close>

definition start_run ::
  "nat \<Rightarrow> agent_env \<Rightarrow> redis_world \<Rightarrow> string \<Rightarrow> agent_input
     \<Rightarrow> (redis_world \<times> effect list \<times> (js_error + agent_document)) option" where
  "start_run fuel env w key input =
     (case (case input of InputString s \<Rightarrow> json_parse env s | InputRecord r \<Rightarrow> Inr r) of
        Inl e \<Rightarrow> Some (w, [], Inl e)
      | Inr inputObject \<Rightarrow>
         (case runAgent fuel env key (map_of inputObject ''prompt'') (fresh_context env key) [] of
            None \<Rightarrow> None
          | Some (log, Inl e) \<Rightarrow> Some (w, log, Inl e)
          | Some (log, Inr r) \<Rightarrow> Some (w, log, Inr (RunDocument r))))"

definition getAgent ::
  "nat \<Rightarrow> agent_env \<Rightarrow> redis_world \<Rightarrow> string \<Rightarrow> agent_input \<Rightarrow> agent_context
     \<Rightarrow> (redis_world \<times> effect list \<times> (js_error + agent_document)) option" where
  "getAgent fuel env w key0 input agentContext =
     (let key = (if key0 = [] then str_or (SKYFIRE_API_KEY env) [] else key0);
          TESTING = (TEST_MODE env = Some ''true'')
      in if \<not> TESTING then
           (case checkRedisConnection w of (w1, redisStatus) \<Rightarrow>
              if \<not> connected redisStatus then
                Some (w1, [], Inr (ErrorDocument
                  \<lparr> ed_message = ''Redis connection failed: ''
                       @ (case cs_error redisStatus of None \<Rightarrow> ''null'' | Some e \<Rightarrow> e)
                       @ ''. The agent cannot run without Redis. Please check your Redis configuration.'',
                    ed_redisError = Some True, ed_dailyCap = None, ed_currentUsage = None,
                    ed_steps = [], ed_usage = None, ed_agentContext = agentContext \<rparr>))
              else
                (let dailyCap = parseInt (str_or (DAILY_RUN_CAP env) ''250'')
                 in case checkDailyRunLimit w1 (today env) dailyCap of (w2, limitResult) \<Rightarrow>
                      if limitExceeded limitResult then
                        Some (w2, [], Inr (ErrorDocument
                          \<lparr> ed_message = ''Daily run limit exceeded. Maximum '' @ number_str dailyCap
                               @ '' runs per day allowed. Please try again tomorrow.'',
                            ed_redisError = None, ed_dailyCap = Some dailyCap,
                            ed_currentUsage = Some (currentUsage limitResult),
                            ed_steps = [], ed_usage = None, ed_agentContext = agentContext \<rparr>))
                      else
                        start_run fuel env (fst (incrementDailyRunCounter w2 (today env)))
                          key input))
         else start_run fuel env w key input)"

text \<open>Tool call \<open>i\<close> of a step is a token-issuing call whose outcome holds a token that
  decodes; the number of formatted steps one model step gives.\<close>

definition decodes :: "agent_env \<Rightarrow> ai_step \<Rightarrow> nat \<Rightarrow> bool" where
  "decodes env step i =
     (i < length (st_toolCalls step)
      \<and> toolName (st_toolCalls step ! i) \<in> set token_tools
      \<and> (\<exists>d. getDecodedJWT env (if i < length (st_toolResults step)
                                  then Some (st_toolResults step ! i) else None) = Inr (Some d)))"

definition emitted_count :: "agent_env \<Rightarrow> ai_step \<Rightarrow> nat" where
  "emitted_count env step =
     (if st_toolCalls step = [] then 1
      else length (st_toolCalls step)
           + length (filter (decodes env step) [0 ..< length (st_toolCalls step)]))"

text \<open>The tool calls of a round in order, and among them the calls of the two bootstrap
  tools with the server and the description reference each one stands for.\<close>

definition all_calls :: "ai_step list \<Rightarrow> tool_call list" where
  "all_calls steps = concat (map st_toolCalls steps)"

definition mount_calls :: "ai_step list \<Rightarrow> tool_call list" where
  "mount_calls steps = filter (\<lambda>c. toolName c = ''connect-mcp-server-tool'') (all_calls steps)"

definition description_calls :: "ai_step list \<Rightarrow> tool_call list" where
  "description_calls steps =
     filter (\<lambda>c. toolName c = ''convert-openapi-spec-to-agent-tool'') (all_calls steps)"

definition mounted :: "tool_call \<Rightarrow> server" where
  "mounted c = \<lparr> sv_url = map_of (args c) ''mcpServerUrl'', sv_headers = [] \<rparr>"

definition described :: "tool_call \<Rightarrow> api_spec_ref" where
  "described c = \<lparr> as_url = map_of (args c) ''openApiSpecUrl'', as_authHeader = None \<rparr>"

abbreviation "is_mount c \<equiv> toolName c = ''connect-mcp-server-tool''"
abbreviation "is_descr c \<equiv> toolName c = ''convert-openapi-spec-to-agent-tool''"

section \<open>Example inputs\<close>

definition widget_operation :: operation where
  "widget_operation =
     \<lparr> op_summary = Some ''Get Widget'', op_description = None, op_operationId = None,
       op_parameters = None, op_requestBody = None, op_security = None \<rparr>"

definition widget_item :: path_item where
  "widget_item =
     \<lparr> pi_get = Some widget_operation, pi_post = None, pi_put = None, pi_delete = None,
       pi_patch = None, pi_parameters = None \<rparr>"

definition widget_document :: document where
  "widget_document =
     \<lparr> d_servers = Some [''https://api.example.com''],
       d_paths = Some [(''/widget'', Some widget_item)],
       d_security = None, d_securitySchemes = None \<rparr>"








definition fresh_redis :: redis_world where
  "fresh_redis =
     \<lparr> has_client = True, redisConnectionError = None, reachable = True,
       failure = Error ''Connection is closed.'', entries = Map.empty, commands = [] \<rparr>"

definition thinking_step :: ai_step where
  "thinking_step =
     \<lparr> st_text = ''I will look for a seller.'', st_toolCalls = [], st_toolResults = [] \<rparr>"

definition token_step :: ai_step where
  "token_step =
     \<lparr> st_text = [],
       st_toolCalls = [\<lparr> toolName = ''create-kya-pay-token'', args = [(''amount'', ''1'')] \<rparr>],
       st_toolResults =
         [\<lparr> tr_content = Some [\<lparr> ci_type = Some ''text'',
                                  ci_text = Some ''Your token is aaa.bbb.ccc'' \<rparr>] \<rparr>] \<rparr>"

definition two_call_step :: ai_step where
  "two_call_step =
     \<lparr> st_text = [],
       st_toolCalls = [\<lparr> toolName = ''find-seller'', args = [(''query'', ''research'')] \<rparr>,
                       \<lparr> toolName = ''find-seller'', args = [(''query'', ''competitors'')] \<rparr>],
       st_toolResults =
         [\<lparr> tr_content = Some [\<lparr> ci_type = Some ''text'', ci_text = Some ''Buildship'' \<rparr>] \<rparr>,
          \<lparr> tr_content = Some [\<lparr> ci_type = Some ''text'', ci_text = Some ''Buildship'' \<rparr>] \<rparr>] \<rparr>"

definition example_usage :: usage where
  "example_usage = \<lparr> promptTokens = 10, completionTokens = 5, totalTokens = 15 \<rparr>"

text \<open>A stub model without bootstrap calls: one step, with two calls of \<open>find-seller\<close>.\<close>

definition quiet_model :: "message list \<Rightarrow> (string \<times> tool) list \<Rightarrow> js_error + model_response" where
  "quiet_model history tools =
     Inr \<lparr> g_text = ''Done.'', g_usage = example_usage, g_steps = [two_call_step],
           g_messages = [\<lparr> m_role = ''assistant'', m_content = Some ''Done.'' \<rparr>] \<rparr>"

definition example_env :: agent_env where
  "example_env =
     \<lparr> generateText = quiet_model,
       fetch_description = (\<lambda>u. if u = Some ''https://api.example.com/openapi.json''
                                 then Inr widget_document else Inl (Error ''fetch failed'')),
       valid_url = (\<lambda>u. take 8 u = ''https://''),
       mcp_tools = (\<lambda>sv. if sv_url sv = Some ''https://mcp.skyfire.xyz/mcp''
                           then Inr [''find-seller'', ''create-kya-pay-token'']
                           else Inr [''research'']),
       mcp_resources = (\<lambda>sv. Inl (Error ''Method not found'')),
       isJWT = (\<lambda>t. t = ''aaa.bbb.ccc''),
       jwtDecode = (\<lambda>t. Inr (JObj [(''alg'', JStr ''ES256'')], JObj [(''sub'', JStr ''buyer'')])),
       json_parse = (\<lambda>s. Inl (Error ''SyntaxError'')),
       SKYFIRE_API_KEY = None, TEST_MODE = None, DAILY_RUN_CAP = None,
       SKYFIRE_MCP_URL = Some ''https://mcp.skyfire.xyz/mcp'',
       today = ''2025-01-01'' \<rparr>"

definition bootstrap_step :: ai_step where
  "bootstrap_step =
     \<lparr> st_text = [],
       st_toolCalls =
         [\<lparr> toolName = ''connect-mcp-server-tool'',
            args = [(''mcpServerUrl'', ''https://seller-b.example.com/mcp''),
                    (''sellerName'', ''B'')] \<rparr>,
          \<lparr> toolName = ''convert-openapi-spec-to-agent-tool'',
            args = [(''openApiSpecUrl'', ''https://one.example.com/openapi.json''),
                    (''serviceName'', ''one'')] \<rparr>,
          \<lparr> toolName = ''convert-openapi-spec-to-agent-tool'',
            args = [(''openApiSpecUrl'', ''https://two.example.com/openapi.json''),
                    (''serviceName'', ''two'')] \<rparr>],
       st_toolResults = [] \<rparr>"

definition seller_a :: server where
  "seller_a = \<lparr> sv_url = Some ''https://seller-a.example.com/mcp'', sv_headers = [] \<rparr>"

definition seller_b :: server where
  "seller_b = \<lparr> sv_url = Some ''https://seller-b.example.com/mcp'', sv_headers = [] \<rparr>"

definition mounted_context :: agent_context where
  "mounted_context =
     \<lparr> available_mcp_servers =
         [\<lparr> sv_url = Some ''https://mcp.skyfire.xyz/mcp'',
            sv_headers = [(''skyfire-api-key'', ''key'')] \<rparr>],
       dynamically_mounted_server = [seller_a],
       openApiSpecs = [],
       conversation_history = [\<lparr> m_role = ''system'', m_content = Some ''Be helpful.'' \<rparr>] \<rparr>"

definition no_redis :: redis_world where
  "no_redis = fresh_redis\<lparr> has_client := False, redisConnectionError := Some ''No Redis URL provided'' \<rparr>"

definition full_redis :: redis_world where
  "full_redis = fresh_redis\<lparr> entries := [''usage:2025-01-01'' \<mapsto> \<lparr> re_value = ''250'', re_ttl = Some 86400 \<rparr>] \<rparr>"

definition skyfire_registry :: registry where
  "skyfire_registry =
     [(''connect-mcp-server-tool'', ConnectMcpServerTool),
      (''convert-openapi-spec-to-agent-tool'', ConvertOpenApiSpecToAgentTool),
      (''find-seller'', McpTool (Some ''https://mcp.skyfire.xyz/mcp'') ''find-seller''),
      (''create-kya-pay-token'',
       McpTool (Some ''https://mcp.skyfire.xyz/mcp'') ''create-kya-pay-token'')]"

definition skyfire_log :: "effect list" where
  "skyfire_log = [ConnectStreamable (Some ''https://mcp.skyfire.xyz/mcp''),
                  ConnectSse (Some ''https://mcp.skyfire.xyz/mcp'')]"

definition quiet_response :: model_response where
  "quiet_response =
     \<lparr> g_text = ''Done.'', g_usage = example_usage, g_steps = [two_call_step],
       g_messages = [\<lparr> m_role = ''assistant'', m_content = Some ''Done.'' \<rparr>] \<rparr>"

definition one_call_step :: ai_step where
  "one_call_step =
     \<lparr> st_text = [],
       st_toolCalls = [\<lparr> toolName = ''find-seller'', args = [(''query'', ''research'')] \<rparr>],
       st_toolResults =
         [\<lparr> tr_content = Some [\<lparr> ci_type = Some ''text'', ci_text = Some ''Buildship'' \<rparr>] \<rparr>] \<rparr>"

definition plain_response :: model_response where
  "plain_response =
     \<lparr> g_text = ''Done.'', g_usage = example_usage, g_steps = [thinking_step, one_call_step],
       g_messages = [\<lparr> m_role = ''assistant'', m_content = Some ''Done.'' \<rparr>] \<rparr>"

text \<open>The same world with a stub model whose steps have at most one tool call each.\<close>

definition plain_env :: agent_env where
  "plain_env = example_env\<lparr> generateText := (\<lambda>history tools. Inr plain_response) \<rparr>"

definition connect_step :: ai_step where
  "connect_step =
     \<lparr> st_text = [],
       st_toolCalls =
         [\<lparr> toolName = ''connect-mcp-server-tool'',
            args = [(''mcpServerUrl'', ''https://seller-b.example.com/mcp''),
                    (''sellerName'', ''B'')] \<rparr>],
       st_toolResults =
         [\<lparr> tr_content = Some [\<lparr> ci_type = Some ''text'',
                                  ci_text = Some ''Connecting to Seller MCP server....'' \<rparr>] \<rparr>] \<rparr>"

definition json_mount_step :: ai_step where
  "json_mount_step =
     \<lparr> st_text = [],
       st_toolCalls =
         [\<lparr> toolName = ''connect-mcp-server-tool'',
            args = [(''mcpServerUrl'', ''https://api.example.com/openapi.json''),
                    (''sellerName'', ''W'')] \<rparr>],
       st_toolResults = [] \<rparr>"

definition two_mount_step :: ai_step where
  "two_mount_step =
     \<lparr> st_text = [],
       st_toolCalls =
         [\<lparr> toolName = ''connect-mcp-server-tool'',
            args = [(''mcpServerUrl'', ''https://seller-a.example.com/mcp''),
                    (''sellerName'', ''A'')] \<rparr>,
          \<lparr> toolName = ''connect-mcp-server-tool'',
            args = [(''mcpServerUrl'', ''https://seller-b.example.com/mcp''),
                    (''sellerName'', ''B'')] \<rparr>],
       st_toolResults = [] \<rparr>"

definition connect_response :: model_response where
  "connect_response =
     \<lparr> g_text = [], g_usage = example_usage, g_steps = [connect_step],
       g_messages = [\<lparr> m_role = ''assistant'', m_content = Some ''connect'' \<rparr>] \<rparr>"

text \<open>A stub model that asks for the seller's server until the registry has its tool.\<close>

definition expanding_model :: "message list \<Rightarrow> (string \<times> tool) list \<Rightarrow> js_error + model_response" where
  "expanding_model history tools =
     (if map_of tools ''research'' = None then Inr connect_response else Inr plain_response)"

definition expanding_env :: agent_env where
  "expanding_env = example_env\<lparr> generateText := expanding_model \<rparr>"

section \<open>The compiler's parameter schema\<close>












text \<open>The widget description compiles to one tool.\<close>

lemma widget_pipeline:
  "filter is_name_char
     (replace_ws_runs (trim (join '' '' (split_ws (toLowerCase ''Get Widget''))))) = ''get_widget''"
  by code_simp

lemma widget_summary_name: "summary_name ''Get Widget'' = ''get_widget''"
  by code_simp

lemma widget_name:
  assumes "toolNames this = [] \<or> toolNames this = [(''get_/widget'', ''get_widget'')]"
    and "op_summary oper = Some ''Get Widget''"
  shows "generateToolName this ''/widget'' GET oper = ''get_widget''"
  using assms unfolding generateToolName_def Let_def
  by (auto simp: str_or_def widget_pipeline)

lemma empty_schema:
  "convertParametersToJsonSchema [] None
     = \<lparr> properties = [(''skyfire_kya_pay_token'', token_property)],
         required = [''skyfire_kya_pay_token''] \<rparr>"
  by (simp add: convertParametersToJsonSchema_def collect_parameters_def body_object_schema_def)

lemma widget_tools:
  assumes "d_paths d = Some [(''/widget'', Some item)]"
    and "pi_get item = Some oper" "pi_post item = None" "pi_put item = None"
        "pi_delete item = None" "pi_patch item = None"
    and "pi_parameters item = None \<or> pi_parameters item = Some []"
    and "op_summary oper = Some ''Get Widget''"
    and "op_parameters oper = None \<or> op_parameters oper = Some []"
    and "op_requestBody oper = None"
    and "names = None \<or> names = Some (summary_tool_names d)"
  shows "\<exists>t. generateTools (OpenAPIToTools d key names) = [(''get_widget'', t)]
           \<and> properties (parameters t) = [(''skyfire_kya_pay_token'', token_property)]
           \<and> required (parameters t) = [''skyfire_kya_pay_token'']
           \<and> ex_parameters t = [] \<and> ex_operation t = oper"
proof -
  have sn: "summary_tool_names d = [(''get_/widget'', ''get_widget'')]"
    using assms(1-6,8)
    by (simp add: summary_tool_names_def names_of_path_def methods_def name_of_method_def
        widget_summary_name)
  let ?conv = "OpenAPIToTools d key names"
  have tn: "toolNames ?conv = [] \<or> toolNames ?conv = [(''get_/widget'', ''get_widget'')]"
    using assms(11) sn by (auto simp: OpenAPIToTools_def)
  have nm: "generateToolName ?conv ''/widget'' GET oper = ''get_widget''"
    by (rule widget_name[OF tn assms(8)])
  have sp: "spec ?conv = d" by (simp add: OpenAPIToTools_def)
  show ?thesis
    unfolding generateTools_def sp
    using assms(1-7,9,10) nm empty_schema
    by (auto simp: compile_path_def methods_def compile_method_def Let_def)
qed




text \<open>
  C7. A description with exactly one GET operation at \<open>/widget\<close>, with the summary
  \<open>Get Widget\<close> and no parameters or request body, compiles to exactly one tool, named
  \<open>get_widget\<close>, whose schema has the single property \<open>skyfire_kya_pay_token\<close>, which is
  required. This holds without a name-override mapping and with the mapping that
  \<open>prepareAllTools\<close> builds from the description.
\<close>

theorem widget_compiles_to_get_widget:
  assumes "d_paths d = Some [(''/widget'', Some item)]"
    and "pi_get item = Some oper" "pi_post item = None" "pi_put item = None"
        "pi_delete item = None" "pi_patch item = None"
    and "pi_parameters item = None \<or> pi_parameters item = Some []"
    and "op_summary oper = Some ''Get Widget''"
    and "op_parameters oper = None \<or> op_parameters oper = Some []"
    and "op_requestBody oper = None"
    and "names = None \<or> names = Some (summary_tool_names d)"
  shows "\<exists>t. generateTools (OpenAPIToTools d key names) = [(''get_widget'', t)]
           \<and> map fst (properties (parameters t)) = [''skyfire_kya_pay_token'']
           \<and> required (parameters t) = [''skyfire_kya_pay_token'']"
proof -
  obtain t where "generateTools (OpenAPIToTools d key names) = [(''get_widget'', t)]"
    "properties (parameters t) = [(''skyfire_kya_pay_token'', token_property)]"
    "required (parameters t) = [''skyfire_kya_pay_token'']"
    using widget_tools[OF assms, of key] by blast
  then show ?thesis by simp
qed

theorem widget_compiles_to_get_widget_witness:
  "\<exists>t. generateTools (OpenAPIToTools widget_document [] (Some (summary_tool_names widget_document)))
          = [(''get_widget'', t)]
        \<and> map fst (properties (parameters t)) = [''skyfire_kya_pay_token'']
        \<and> required (parameters t) = [''skyfire_kya_pay_token'']"
  by (rule widget_compiles_to_get_widget[of widget_document widget_item widget_operation])
     (simp_all add: widget_document_def widget_item_def widget_operation_def)

section \<open>The executor's failures\<close>









section \<open>The usage counter\<close>

lemma redis_integer_1: "redis_integer ''1'' = Some 1" by code_simp
lemma string_of_int_2: "string_of_int 2 = ''2''" by code_simp

lemma incr_missing:
  assumes "reachable w" "entries w k = None"
  shows "redis_incr w k = (w\<lparr> commands := commands w @ [INCR k], entries := (entries w)(k \<mapsto> \<lparr> re_value = ''1'', re_ttl = None \<rparr>) \<rparr>, Inr 1)"
  using assms by (simp add: redis_incr_def Let_def)

lemma incr_one:
  assumes "reachable w" "entries w k = Some \<lparr> re_value = ''1'', re_ttl = t \<rparr>"
  shows "redis_incr w k = (w\<lparr> commands := commands w @ [INCR k], entries := (entries w)(k \<mapsto> \<lparr> re_value = ''2'', re_ttl = t \<rparr>) \<rparr>, Inr 2)"
  using assms by (simp add: redis_incr_def Let_def redis_integer_1 string_of_int_2)

lemma expire_present:
  assumes "reachable w" "entries w k = Some e"
  shows "redis_expire w k n = (w\<lparr> commands := commands w @ [EXPIRE k n], entries := (entries w)(k \<mapsto> e\<lparr> re_ttl := Some n \<rparr>) \<rparr>, Inr 1)"
  using assms by (simp add: redis_expire_def Let_def)

lemma first_increment:
  assumes "has_client w" "reachable w" "entries w (usageKey date) = None"
  shows "incrementDailyRunCounter w date =
     (w\<lparr> commands := commands w @ [INCR (usageKey date), EXPIRE (usageKey date) 86400],
         entries := (entries w)(usageKey date \<mapsto> \<lparr> re_value = ''1'', re_ttl = Some 86400 \<rparr>) \<rparr>, 1)"
proof -
  let ?k = "usageKey date"
  let ?w1 = "w\<lparr> commands := commands w @ [INCR ?k], entries := (entries w)(?k \<mapsto> \<lparr> re_value = ''1'', re_ttl = None \<rparr>) \<rparr>"
  have i: "redis_incr w ?k = (?w1, Inr 1)" by (rule incr_missing[OF assms(2,3)])
  have e: "redis_expire ?w1 ?k 86400 = (?w1\<lparr> commands := commands ?w1 @ [EXPIRE ?k 86400], entries := (entries ?w1)(?k \<mapsto> \<lparr> re_value = ''1'', re_ttl = None \<rparr>\<lparr> re_ttl := Some 86400 \<rparr>) \<rparr>, Inr 1)"
    by (rule expire_present) (simp_all add: assms(2))
  show ?thesis
    unfolding incrementDailyRunCounter_def i
    by (simp add: assms(1) e)
qed

lemma second_increment:
  assumes "has_client w" "reachable w" "entries w (usageKey date) = Some \<lparr> re_value = ''1'', re_ttl = t \<rparr>"
  shows "incrementDailyRunCounter w date =
     (w\<lparr> commands := commands w @ [INCR (usageKey date)],
         entries := (entries w)(usageKey date \<mapsto> \<lparr> re_value = ''2'', re_ttl = t \<rparr>) \<rparr>, 2)"
  unfolding incrementDailyRunCounter_def incr_one[OF assms(2,3)]
  by (simp add: assms(1))

text \<open>
  C8. With a client, a reachable store and no entry for the current date, the first call
  of \<open>incrementDailyRunCounter\<close> returns 1 and issues \<open>INCR\<close> and then \<open>EXPIRE\<close> with
  exactly 86400 seconds on the key \<open>usage:<date>\<close>, so the entry has that time to live;
  the second call for the same date returns 2 and issues only \<open>INCR\<close>: no new expiry
  is set, and the entry keeps the 86400 seconds.
\<close>

theorem increment_sets_expiry_once:
  assumes "has_client w" and "reachable w" and "entries w (usageKey date) = None"
  shows "snd (incrementDailyRunCounter w date) = 1
       \<and> commands (fst (incrementDailyRunCounter w date))
           = commands w @ [INCR (usageKey date), EXPIRE (usageKey date) 86400]
       \<and> entries (fst (incrementDailyRunCounter w date)) (usageKey date)
           = Some \<lparr> re_value = ''1'', re_ttl = Some 86400 \<rparr>
       \<and> snd (incrementDailyRunCounter (fst (incrementDailyRunCounter w date)) date) = 2
       \<and> commands (fst (incrementDailyRunCounter (fst (incrementDailyRunCounter w date)) date))
           = commands (fst (incrementDailyRunCounter w date)) @ [INCR (usageKey date)]
       \<and> entries (fst (incrementDailyRunCounter (fst (incrementDailyRunCounter w date)) date))
             (usageKey date)
           = Some \<lparr> re_value = ''2'', re_ttl = Some 86400 \<rparr>"
proof -
  let ?k = "usageKey date"
  let ?w1 = "w\<lparr> commands := commands w @ [INCR ?k, EXPIRE ?k 86400],
                 entries := (entries w)(?k \<mapsto> \<lparr> re_value = ''1'', re_ttl = Some 86400 \<rparr>) \<rparr>"
  have one: "incrementDailyRunCounter w date = (?w1, 1)"
    by (rule first_increment[OF assms])
  have two: "incrementDailyRunCounter ?w1 date
      = (?w1\<lparr> commands := commands ?w1 @ [INCR ?k],
               entries := (entries ?w1)(?k \<mapsto> \<lparr> re_value = ''2'', re_ttl = Some 86400 \<rparr>) \<rparr>, 2)"
    by (rule second_increment) (simp_all add: assms)
  show ?thesis unfolding one fst_conv snd_conv two by simp
qed

theorem increment_sets_expiry_once_witness:
  "snd (incrementDailyRunCounter fresh_redis ''2025-01-01'') = 1
   \<and> commands (fst (incrementDailyRunCounter fresh_redis ''2025-01-01''))
       = [INCR ''usage:2025-01-01'', EXPIRE ''usage:2025-01-01'' 86400]
   \<and> snd (incrementDailyRunCounter (fst (incrementDailyRunCounter fresh_redis ''2025-01-01''))
            ''2025-01-01'') = 2
   \<and> commands (fst (incrementDailyRunCounter
                      (fst (incrementDailyRunCounter fresh_redis ''2025-01-01'')) ''2025-01-01''))
       = [INCR ''usage:2025-01-01'', EXPIRE ''usage:2025-01-01'' 86400, INCR ''usage:2025-01-01'']"
proof -
  have h: "has_client fresh_redis" "reachable fresh_redis"
    "entries fresh_redis (usageKey ''2025-01-01'') = None"
    by (simp_all add: fresh_redis_def)
  have k: "usageKey ''2025-01-01'' = ''usage:2025-01-01''" by (simp add: usageKey_def)
  have c: "commands fresh_redis = []" by (simp add: fresh_redis_def)
  from increment_sets_expiry_once[OF h] show ?thesis
    unfolding k by (simp add: c)
qed

section \<open>The step formatter\<close>

lemma format_call_append:
  assumes "i < length (st_toolCalls step)"
  shows "\<exists>ex. format_call env step fs i = fs @ ex \<and> (\<forall>f \<in> set ex. fs_step f = 1)
        \<and> length ex = 1 + (if decodes env step i then 1 else 0)"
  using assms unfolding format_call_def Let_def pushFormattedSteps_def decodes_def
  by (auto split: sum.splits option.splits prod.splits)

lemma format_calls_append:
  assumes "\<forall>i \<in> set is. i < length (st_toolCalls step)"
  shows "\<exists>ex. foldl (format_call env step) fs is = fs @ ex \<and> (\<forall>f \<in> set ex. fs_step f = 1)
        \<and> length ex = length is + length (filter (decodes env step) is)"
  using assms
proof (induction "is" arbitrary: fs)
  case Nil
  then show ?case by simp
next
  case (Cons i "is")
  from Cons.prems have i: "i < length (st_toolCalls step)"
    and r: "\<forall>i \<in> set is. i < length (st_toolCalls step)" by simp_all
  obtain e1 where e1: "format_call env step fs i = fs @ e1" "\<forall>f \<in> set e1. fs_step f = 1"
     "length e1 = 1 + (if decodes env step i then 1 else 0)"
    using format_call_append[OF i] by blast
  obtain e2 where e2: "foldl (format_call env step) (fs @ e1) is = (fs @ e1) @ e2"
     "\<forall>f \<in> set e2. fs_step f = 1"
     "length e2 = length is + length (filter (decodes env step) is)"
    using Cons.IH[OF r] by blast
  show ?case
    by (rule exI[of _ "e1 @ e2"]) (use e1 e2 in auto)
qed

lemma format_step_append:
  "\<exists>ex. format_step env fs step = fs @ ex \<and> (\<forall>f \<in> set ex. fs_step f = 1)
        \<and> length ex = emitted_count env step"
proof (cases "st_toolCalls step = []")
  case True
  then show ?thesis by (simp add: format_step_def emitted_count_def)
next
  case False
  then show ?thesis
    using format_calls_append[of "[0 ..< length (st_toolCalls step)]" step env fs]
    by (simp add: format_step_def emitted_count_def)
qed

lemma formatOutput_append:
  "\<exists>ex. formatOutput env steps fs = fs @ ex \<and> (\<forall>f \<in> set ex. fs_step f = 1)
        \<and> length ex = sum_list (map (emitted_count env) steps)"
  unfolding formatOutput_def
proof (induction steps arbitrary: fs)
  case Nil
  then show ?case by simp
next
  case (Cons s steps)
  obtain e1 where e1: "format_step env fs s = fs @ e1" "\<forall>f \<in> set e1. fs_step f = 1"
     "length e1 = emitted_count env s"
    using format_step_append by blast
  obtain e2 where e2: "foldl (format_step env) (fs @ e1) steps = (fs @ e1) @ e2" "\<forall>f \<in> set e2. fs_step f = 1"
     "length e2 = sum_list (map (emitted_count env) steps)"
    using Cons.IH by blast
  show ?case
    by (rule exI[of _ "e1 @ e2"]) (use e1 e2 in auto)
qed

lemma format_call_split: "format_call env step fs i = fs @ format_call env step [] i"
  unfolding format_call_def Let_def pushFormattedSteps_def
  by (simp split: sum.splits option.splits prod.splits)

lemma format_calls_split:
  "foldl (format_call env step) fs is = fs @ foldl (format_call env step) [] is"
proof (induction "is" arbitrary: fs)
  case Nil
  then show ?case by simp
next
  case (Cons i "is")
  have "foldl (format_call env step) (format_call env step fs i) is
          = (fs @ format_call env step [] i) @ foldl (format_call env step) [] is"
    using Cons.IH[of "format_call env step fs i"] format_call_split[of env step fs i] by simp
  moreover have "foldl (format_call env step) (format_call env step [] i) is
          = format_call env step [] i @ foldl (format_call env step) [] is"
    by (rule Cons.IH)
  ultimately show ?case by simp
qed

lemma format_step_split: "format_step env fs step = fs @ format_step env [] step"
  using format_calls_split[of env step fs] by (simp add: format_step_def)

lemma formatOutput_split: "formatOutput env steps fs = fs @ formatOutput env steps []"
  unfolding formatOutput_def
proof (induction steps arbitrary: fs)
  case Nil
  then show ?case by simp
next
  case (Cons s steps)
  have "foldl (format_step env) (format_step env fs s) steps
          = (fs @ format_step env [] s) @ foldl (format_step env) [] steps"
    using Cons.IH[of "format_step env fs s"] format_step_split[of env fs s] by simp
  moreover have "foldl (format_step env) (format_step env [] s) steps
          = format_step env [] s @ foldl (format_step env) [] steps"
    by (rule Cons.IH)
  ultimately show ?case by simp
qed

lemma formatOutput_index: "\<forall>f \<in> set (formatOutput env steps []). fs_step f = 1"
  using formatOutput_append[of env steps "[]"] by auto

lemma formatOutput_length:
  "length (formatOutput env steps fs) = length fs + sum_list (map (emitted_count env) steps)"
  using formatOutput_append[of env steps fs] by auto

lemma example_format:
  "formatOutput example_env [thinking_step, token_step] [] =
     [\<lparr> fs_step = 1, fs_text = ''I will look for a seller.'', fs_tool = ''thinking'',
        fs_input = [], fs_result = Null \<rparr>,
      \<lparr> fs_step = 1, fs_text = ''I will use Skyfire's create-kya-pay-token tool to create a KYA+PAY token for the service which is later used by receiver to claim payment'',
        fs_tool = ''create-kya-pay-token'', fs_input = [(''amount'', ''1'')],
        fs_result = Raw \<lparr> tr_content = Some [\<lparr> ci_type = Some ''text'',
                                  ci_text = Some ''Your token is aaa.bbb.ccc'' \<rparr>] \<rparr> \<rparr>,
      \<lparr> fs_step = 1, fs_text = ''Decoding JWT token...'', fs_tool = ''thinking'', fs_input = [],
        fs_result = DecodedJWT ''aaa.bbb.ccc'' (JObj [(''alg'', JStr ''ES256'')])
                      (JObj [(''sub'', JStr ''buyer'')]) \<rparr>]"
  by code_simp

text \<open>
  C9. Every step the formatter emits, the synthetic token-decoding steps included, has
  the step index 1: \<open>formatOutput\<close> appends its steps to the steps it is given, each of
  them has index 1, and so has the step \<open>pushFormattedSteps\<close> adds. Hence any two
  emitted steps have the same index, and the index never increases from one emitted step
  to a later one.
\<close>

theorem formatted_steps_share_one_index:
  "formatOutput env steps fs = fs @ formatOutput env steps []
   \<and> (\<forall>f \<in> set (formatOutput env steps []). fs_step f = 1)
   \<and> (\<forall>f \<in> set (pushFormattedSteps [] token jwt). fs_step f = 1)
   \<and> (\<forall>i j. i < j \<and> j < length (formatOutput env steps []) \<longrightarrow>
         fs_step (formatOutput env steps [] ! i) = fs_step (formatOutput env steps [] ! j)
         \<and> \<not> fs_step (formatOutput env steps [] ! i) < fs_step (formatOutput env steps [] ! j))"
proof (intro conjI allI impI)
  show "formatOutput env steps fs = fs @ formatOutput env steps []"
    by (rule formatOutput_split)
  show a: "\<forall>f \<in> set (formatOutput env steps []). fs_step f = 1"
    by (rule formatOutput_index)
  show "\<forall>f \<in> set (pushFormattedSteps [] token jwt). fs_step f = 1"
    by (simp add: pushFormattedSteps_def)
  fix i j assume "i < j \<and> j < length (formatOutput env steps [])"
  then have "formatOutput env steps [] ! i \<in> set (formatOutput env steps [])"
    "formatOutput env steps [] ! j \<in> set (formatOutput env steps [])"
    by simp_all
  with a have e: "fs_step (formatOutput env steps [] ! i) = 1" "fs_step (formatOutput env steps [] ! j) = 1"
    by blast+
  show "fs_step (formatOutput env steps [] ! i) = fs_step (formatOutput env steps [] ! j)"
    by (simp add: e)
  show "\<not> fs_step (formatOutput env steps [] ! i) < fs_step (formatOutput env steps [] ! j)"
    by (simp add: e)
qed

theorem formatted_steps_share_one_index_witness:
  "length (formatOutput example_env [thinking_step, token_step] []) = 3
   \<and> fs_tool (formatOutput example_env [thinking_step, token_step] [] ! 1) = ''create-kya-pay-token''
   \<and> fs_step (formatOutput example_env [thinking_step, token_step] [] ! 1) = 1
   \<and> fs_text (formatOutput example_env [thinking_step, token_step] [] ! 2) = ''Decoding JWT token...''
   \<and> fs_step (formatOutput example_env [thinking_step, token_step] [] ! 2) = 1
   \<and> fs_step (formatOutput example_env [thinking_step, token_step] [] ! 1)
       = fs_step (formatOutput example_env [thinking_step, token_step] [] ! 2)"
proof -
  let ?out = "formatOutput example_env [thinking_step, token_step] []"
  have len: "length ?out = 3" by (simp add: example_format)
  have m: "?out ! 1 \<in> set ?out" "?out ! 2 \<in> set ?out"
    using len by (simp_all del: example_format)
  from formatted_steps_share_one_index[of example_env "[thinking_step, token_step]" "[]" "[]" "(JNull, JNull)"]
  have all: "\<forall>f \<in> set ?out. fs_step f = 1" by blast
  from all m have "fs_step (?out ! 1) = 1" "fs_step (?out ! 2) = 1" by blast+
  moreover have "fs_tool (?out ! 1) = ''create-kya-pay-token''"
    "fs_text (?out ! 2) = ''Decoding JWT token...''"
    by (simp_all add: example_format)
  ultimately show ?thesis using len by simp
qed

section \<open>The bootstrap detector\<close>

lemma detect_steps_calls: "foldl detect_step st steps = foldl detect_call st (all_calls steps)"
  by (induction steps arbitrary: st) (simp_all add: all_calls_def detect_step_def)

lemma detect_call_proj:
  "dynamically_mounted_server (ds_context (detect_call st c))
     = (if is_mount c then [mounted c] else dynamically_mounted_server (ds_context st))"
  "openApiSpecs (ds_context (detect_call st c))
     = (if is_descr c then openApiSpecs (ds_context st) @ [described c]
        else openApiSpecs (ds_context st))"
  "available_mcp_servers (ds_context (detect_call st c)) = available_mcp_servers (ds_context st)"
  "conversation_history (ds_context (detect_call st c)) = conversation_history (ds_context st)"
  "mcpServerConnected (detect_call st c) = (mcpServerConnected st \<or> is_mount c)"
  "openApiSpecsAdded (detect_call st c) = (openApiSpecsAdded st \<or> is_descr c)"
  "newToolsFound (detect_call st c) = (newToolsFound st \<or> is_mount c \<or> is_descr c)"
  by (simp_all add: detect_call_def mounted_def described_def Let_def)

lemma detect_call_other:
  "\<not> is_mount c \<Longrightarrow> \<not> is_descr c \<Longrightarrow> detect_call st c = st"
  by (simp add: detect_call_def)

lemma detect_calls_dyn:
  "dynamically_mounted_server (ds_context (foldl detect_call st cs))
     = (if filter is_mount cs = [] then dynamically_mounted_server (ds_context st)
        else [mounted (last (filter is_mount cs))])"
  by (induction cs rule: rev_induct) (simp_all add: detect_call_proj)

lemma detect_calls_specs:
  "openApiSpecs (ds_context (foldl detect_call st cs))
     = openApiSpecs (ds_context st) @ map described (filter is_descr cs)"
  by (induction cs rule: rev_induct) (simp_all add: detect_call_proj)

lemma detect_calls_static:
  "available_mcp_servers (ds_context (foldl detect_call st cs)) = available_mcp_servers (ds_context st)
   \<and> conversation_history (ds_context (foldl detect_call st cs)) = conversation_history (ds_context st)"
  by (induction cs rule: rev_induct) (simp_all add: detect_call_proj)

lemma detect_calls_flags:
  "mcpServerConnected (foldl detect_call st cs) = (mcpServerConnected st \<or> filter is_mount cs \<noteq> [])
   \<and> openApiSpecsAdded (foldl detect_call st cs) = (openApiSpecsAdded st \<or> filter is_descr cs \<noteq> [])
   \<and> newToolsFound (foldl detect_call st cs)
       = (newToolsFound st \<or> filter is_mount cs \<noteq> [] \<or> filter is_descr cs \<noteq> [])"
  by (induction cs rule: rev_induct) (auto simp: detect_call_proj)

lemma detect_calls_none:
  "filter is_mount cs = [] \<Longrightarrow> filter is_descr cs = [] \<Longrightarrow> foldl detect_call st cs = st"
proof (induction cs arbitrary: st)
  case Nil
  then show ?case by simp
next
  case (Cons c cs)
  from Cons.prems have c: "\<not> is_mount c" "\<not> is_descr c"
    and r: "filter is_mount cs = []" "filter is_descr cs = []"
    by (simp_all split: if_splits)
  show ?case using Cons.IH[OF r] detect_call_other[OF c] by simp
qed


lemma detector_closed_form:
  "fst (checkAndUpdateAgentContextIfConnectionIsInitiated steps ctx)
     = (mount_calls steps \<noteq> [] \<or> description_calls steps \<noteq> [])"
  "available_mcp_servers (snd (checkAndUpdateAgentContextIfConnectionIsInitiated steps ctx))
     = available_mcp_servers ctx"
  "dynamically_mounted_server (snd (checkAndUpdateAgentContextIfConnectionIsInitiated steps ctx))
     = (if mount_calls steps = [] then dynamically_mounted_server ctx
        else [mounted (last (mount_calls steps))])"
  "openApiSpecs (snd (checkAndUpdateAgentContextIfConnectionIsInitiated steps ctx))
     = openApiSpecs ctx @ map described (description_calls steps)"
  "conversation_history (snd (checkAndUpdateAgentContextIfConnectionIsInitiated steps ctx))
     = conversation_history ctx @
         (if mount_calls steps \<noteq> [] \<or> description_calls steps \<noteq> []
          then [\<lparr> m_role = ''system'',
                  m_content = Some (connected_message (mount_calls steps \<noteq> [])
                                      (description_calls steps \<noteq> [])) \<rparr>]
          else [])"
  unfolding checkAndUpdateAgentContextIfConnectionIsInitiated_def Let_def detect_steps_calls
    mount_calls_def description_calls_def
  by (simp_all add: detect_calls_dyn detect_calls_specs detect_calls_static detect_calls_flags)

lemma detector_no_bootstrap:
  assumes "mount_calls steps = []" "description_calls steps = []"
  shows "checkAndUpdateAgentContextIfConnectionIsInitiated steps ctx = (False, ctx)"
proof -
  have "foldl detect_call \<lparr> ds_context = ctx, newToolsFound = False,
           mcpServerConnected = False, openApiSpecsAdded = False \<rparr> (all_calls steps)
        = \<lparr> ds_context = ctx, newToolsFound = False,
           mcpServerConnected = False, openApiSpecsAdded = False \<rparr>"
    using assms unfolding mount_calls_def description_calls_def by (rule detect_calls_none)
  then show ?thesis
    unfolding checkAndUpdateAgentContextIfConnectionIsInitiated_def Let_def detect_steps_calls
    by simp
qed

text \<open>
  C2 (amended). For every round whose steps contain at least one bootstrap tool call, the
  detector reports new tools and changes the context as follows: the static servers stay;
  the dynamically mounted list becomes the single server of the last server-mount call
  (with no headers), replacing what was mounted before, and stays as it was when there is
  no server-mount call; each description call appends one description reference, in call
  order; and exactly one system message is appended to the history for the whole round,
  its text chosen by the kinds of call that occurred.
\<close>

theorem detector_updates_context:
  assumes "mount_calls steps \<noteq> [] \<or> description_calls steps \<noteq> []"
  shows "fst (checkAndUpdateAgentContextIfConnectionIsInitiated steps ctx)
       \<and> available_mcp_servers (snd (checkAndUpdateAgentContextIfConnectionIsInitiated steps ctx))
           = available_mcp_servers ctx
       \<and> dynamically_mounted_server (snd (checkAndUpdateAgentContextIfConnectionIsInitiated steps ctx))
           = (if mount_calls steps = [] then dynamically_mounted_server ctx
              else [mounted (last (mount_calls steps))])
       \<and> openApiSpecs (snd (checkAndUpdateAgentContextIfConnectionIsInitiated steps ctx))
           = openApiSpecs ctx @ map described (description_calls steps)
       \<and> conversation_history (snd (checkAndUpdateAgentContextIfConnectionIsInitiated steps ctx))
           = conversation_history ctx @
               [\<lparr> m_role = ''system'',
                  m_content = Some (connected_message (mount_calls steps \<noteq> [])
                                      (description_calls steps \<noteq> [])) \<rparr>]"
  using assms by (simp only: detector_closed_form if_True simp_thms)

lemma bootstrap_step_calls:
  "mount_calls [bootstrap_step] \<noteq> []"
  "description_calls [bootstrap_step] \<noteq> []"
  "length (mount_calls [bootstrap_step]) = 1"
  "length (description_calls [bootstrap_step]) = 2"
  "mounted (last (mount_calls [bootstrap_step])) = seller_b"
  "map (as_url \<circ> described) (description_calls [bootstrap_step])
     = [Some ''https://one.example.com/openapi.json'', Some ''https://two.example.com/openapi.json'']"
  by (simp_all add: mount_calls_def description_calls_def all_calls_def bootstrap_step_def
      mounted_def described_def seller_b_def)

lemma mounted_context_fields:
  "dynamically_mounted_server mounted_context = [seller_a]"
  "openApiSpecs mounted_context = []"
  "length (conversation_history mounted_context) = 1"
  by (simp_all add: mounted_context_def)

lemma seller_a_not_b: "seller_a \<noteq> seller_b"
  by (simp add: seller_a_def seller_b_def)

theorem detector_updates_context_witness:
  "dynamically_mounted_server
      (snd (checkAndUpdateAgentContextIfConnectionIsInitiated [bootstrap_step] mounted_context))
     = [seller_b]
   \<and> map as_url (openApiSpecs
      (snd (checkAndUpdateAgentContextIfConnectionIsInitiated [bootstrap_step] mounted_context)))
     = [Some ''https://one.example.com/openapi.json'', Some ''https://two.example.com/openapi.json'']
   \<and> length (conversation_history
      (snd (checkAndUpdateAgentContextIfConnectionIsInitiated [bootstrap_step] mounted_context)))
     = 2"
proof -
  have h: "mount_calls [bootstrap_step] \<noteq> [] \<or> description_calls [bootstrap_step] \<noteq> []"
    by (simp add: bootstrap_step_calls)
  from detector_updates_context[OF h, of mounted_context] show ?thesis
    by (simp add: bootstrap_step_calls mounted_context_fields)
qed

theorem detector_one_message_counterexample:
  "length (mount_calls [bootstrap_step]) + length (description_calls [bootstrap_step]) = 3
   \<and> length (conversation_history
        (snd (checkAndUpdateAgentContextIfConnectionIsInitiated [bootstrap_step] mounted_context)))
       = length (conversation_history mounted_context) + 1
   \<and> length (conversation_history
        (snd (checkAndUpdateAgentContextIfConnectionIsInitiated [bootstrap_step] mounted_context)))
       \<noteq> length (conversation_history mounted_context) + 3
   \<and> seller_a \<in> set (dynamically_mounted_server mounted_context)
   \<and> seller_a \<notin> set (dynamically_mounted_server
        (snd (checkAndUpdateAgentContextIfConnectionIsInitiated [bootstrap_step] mounted_context)))"
  by (simp add: detector_closed_form bootstrap_step_calls mounted_context_fields seller_a_not_b)

section \<open>The invocation boundary\<close>

lemma getAgent_redis_error:
  assumes "TEST_MODE env \<noteq> Some ''true''" "\<not> connected (snd (checkRedisConnection w))"
  shows "getAgent fuel env w key input ctx =
     Some (fst (checkRedisConnection w), [], Inr (ErrorDocument
        \<lparr> ed_message = ''Redis connection failed: ''
                       @ (case cs_error (snd (checkRedisConnection w)) of None \<Rightarrow> ''null'' | Some e \<Rightarrow> e)
                       @ ''. The agent cannot run without Redis. Please check your Redis configuration.'',
          ed_redisError = Some True, ed_dailyCap = None, ed_currentUsage = None,
          ed_steps = [], ed_usage = None, ed_agentContext = ctx \<rparr>))"
  using assms unfolding getAgent_def Let_def
  by (cases "checkRedisConnection w") simp

lemma getAgent_limit_error:
  assumes "TEST_MODE env \<noteq> Some ''true''" "connected (snd (checkRedisConnection w))"
    and "limitExceeded (snd (checkDailyRunLimit (fst (checkRedisConnection w)) (today env)
            (parseInt (str_or (DAILY_RUN_CAP env) ''250''))))"
  shows "getAgent fuel env w key input ctx =
     Some (fst (checkDailyRunLimit (fst (checkRedisConnection w)) (today env)
                 (parseInt (str_or (DAILY_RUN_CAP env) ''250''))), [],
       Inr (ErrorDocument
        \<lparr> ed_message = ''Daily run limit exceeded. Maximum ''
               @ number_str (parseInt (str_or (DAILY_RUN_CAP env) ''250''))
               @ '' runs per day allowed. Please try again tomorrow.'',
          ed_redisError = None, ed_dailyCap = Some (parseInt (str_or (DAILY_RUN_CAP env) ''250'')),
          ed_currentUsage = Some (currentUsage (snd (checkDailyRunLimit (fst (checkRedisConnection w))
             (today env) (parseInt (str_or (DAILY_RUN_CAP env) ''250''))))),
          ed_steps = [], ed_usage = None, ed_agentContext = ctx \<rparr>))"
  using assms unfolding getAgent_def Let_def
  by (cases "checkRedisConnection w";
      cases "checkDailyRunLimit (fst (checkRedisConnection w)) (today env)
            (parseInt (str_or (DAILY_RUN_CAP env) ''250''))") simp

lemma getAgent_pass:
  assumes "TEST_MODE env \<noteq> Some ''true''" "connected (snd (checkRedisConnection w))"
    and "\<not> limitExceeded (snd (checkDailyRunLimit (fst (checkRedisConnection w)) (today env)
            (parseInt (str_or (DAILY_RUN_CAP env) ''250''))))"
  shows "getAgent fuel env w key input ctx =
     start_run fuel env
       (fst (incrementDailyRunCounter
          (fst (checkDailyRunLimit (fst (checkRedisConnection w)) (today env)
                 (parseInt (str_or (DAILY_RUN_CAP env) ''250'')))) (today env)))
       (if key = [] then str_or (SKYFIRE_API_KEY env) [] else key) input"
  using assms unfolding getAgent_def Let_def
  by (cases "checkRedisConnection w";
      cases "checkDailyRunLimit (fst (checkRedisConnection w)) (today env)
            (parseInt (str_or (DAILY_RUN_CAP env) ''250''))") simp

lemma no_redis_status: "\<not> connected (snd (checkRedisConnection no_redis))"
  by (simp add: checkRedisConnection_def no_redis_def fresh_redis_def)

lemma parse250: "parseInt ''250'' = Some 250" by code_simp

lemma full_redis_status:
  "connected (snd (checkRedisConnection full_redis))"
  "limitExceeded (snd (checkDailyRunLimit (fst (checkRedisConnection full_redis)) ''2025-01-01'' (Some 250)))"
  "currentUsage (snd (checkDailyRunLimit (fst (checkRedisConnection full_redis)) ''2025-01-01'' (Some 250))) = Some 250"
  by (simp_all add: checkRedisConnection_def full_redis_def fresh_redis_def redis_ping_def
      checkDailyRunLimit_def redis_get_def Let_def usageKey_def str_or_def parse250 js_ge_def)

text \<open>
  C10. Outside test mode, on the two pre-flight error paths of \<open>getAgent\<close> (the usage
  counter's store is not connected; the daily limit is exceeded) the returned error
  document carries the caller's context unchanged, with no steps and no usage, and no
  round is run. Only when both checks pass does \<open>getAgent\<close> go on to \<open>start_run\<close>, which
  builds the fresh context and does not read the caller's context at all.
\<close>

theorem preflight_errors_keep_context:
  assumes "TEST_MODE env \<noteq> Some ''true''"
  shows "(\<not> connected (snd (checkRedisConnection w)) \<longrightarrow>
            (\<exists>w' d. getAgent fuel env w key input ctx = Some (w', [], Inr (ErrorDocument d))
               \<and> ed_agentContext d = ctx \<and> ed_redisError d = Some True
               \<and> ed_steps d = [] \<and> ed_usage d = None))
       \<and> (connected (snd (checkRedisConnection w))
            \<and> limitExceeded (snd (checkDailyRunLimit (fst (checkRedisConnection w)) (today env)
                  (parseInt (str_or (DAILY_RUN_CAP env) ''250'')))) \<longrightarrow>
            (\<exists>w' d. getAgent fuel env w key input ctx = Some (w', [], Inr (ErrorDocument d))
               \<and> ed_agentContext d = ctx
               \<and> ed_dailyCap d = Some (parseInt (str_or (DAILY_RUN_CAP env) ''250''))
               \<and> ed_currentUsage d = Some (currentUsage (snd (checkDailyRunLimit
                     (fst (checkRedisConnection w)) (today env)
                     (parseInt (str_or (DAILY_RUN_CAP env) ''250'')))))
               \<and> ed_steps d = [] \<and> ed_usage d = None))
       \<and> (connected (snd (checkRedisConnection w))
            \<and> \<not> limitExceeded (snd (checkDailyRunLimit (fst (checkRedisConnection w)) (today env)
                  (parseInt (str_or (DAILY_RUN_CAP env) ''250'')))) \<longrightarrow>
            getAgent fuel env w key input ctx =
              start_run fuel env
                (fst (incrementDailyRunCounter
                   (fst (checkDailyRunLimit (fst (checkRedisConnection w)) (today env)
                          (parseInt (str_or (DAILY_RUN_CAP env) ''250'')))) (today env)))
                (if key = [] then str_or (SKYFIRE_API_KEY env) [] else key) input)"
proof (intro conjI impI)
  assume "\<not> connected (snd (checkRedisConnection w))"
  from getAgent_redis_error[OF assms this, of fuel key input ctx]
  show "\<exists>w' d. getAgent fuel env w key input ctx = Some (w', [], Inr (ErrorDocument d))
               \<and> ed_agentContext d = ctx \<and> ed_redisError d = Some True
               \<and> ed_steps d = [] \<and> ed_usage d = None"
    by simp
next
  assume h: "connected (snd (checkRedisConnection w))
            \<and> limitExceeded (snd (checkDailyRunLimit (fst (checkRedisConnection w)) (today env)
                  (parseInt (str_or (DAILY_RUN_CAP env) ''250''))))"
  from getAgent_limit_error[OF assms conjunct1[OF h] conjunct2[OF h], of fuel key input ctx]
  show "\<exists>w' d. getAgent fuel env w key input ctx = Some (w', [], Inr (ErrorDocument d))
               \<and> ed_agentContext d = ctx
               \<and> ed_dailyCap d = Some (parseInt (str_or (DAILY_RUN_CAP env) ''250''))
               \<and> ed_currentUsage d = Some (currentUsage (snd (checkDailyRunLimit
                     (fst (checkRedisConnection w)) (today env)
                     (parseInt (str_or (DAILY_RUN_CAP env) ''250'')))))
               \<and> ed_steps d = [] \<and> ed_usage d = None"
    by simp
next
  assume h: "connected (snd (checkRedisConnection w))
            \<and> \<not> limitExceeded (snd (checkDailyRunLimit (fst (checkRedisConnection w)) (today env)
                  (parseInt (str_or (DAILY_RUN_CAP env) ''250''))))"
  show "getAgent fuel env w key input ctx =
              start_run fuel env
                (fst (incrementDailyRunCounter
                   (fst (checkDailyRunLimit (fst (checkRedisConnection w)) (today env)
                          (parseInt (str_or (DAILY_RUN_CAP env) ''250'')))) (today env)))
                (if key = [] then str_or (SKYFIRE_API_KEY env) [] else key) input"
    by (rule getAgent_pass[OF assms conjunct1[OF h] conjunct2[OF h]])
qed

lemma example_env_fields:
  "TEST_MODE example_env \<noteq> Some ''true''"
  "today example_env = ''2025-01-01''"
  "parseInt (str_or (DAILY_RUN_CAP example_env) ''250'') = Some 250"
  by (simp_all add: example_env_def str_or_def parse250)

theorem preflight_errors_keep_context_witness:
  "(\<exists>w' d. getAgent 0 example_env no_redis ''key'' (InputRecord [(''prompt'', ''hi'')])
               mounted_context = Some (w', [], Inr (ErrorDocument d))
           \<and> ed_agentContext d = mounted_context \<and> ed_redisError d = Some True)
   \<and> (\<exists>w' d. getAgent 0 example_env full_redis ''key'' (InputRecord [(''prompt'', ''hi'')])
               mounted_context = Some (w', [], Inr (ErrorDocument d))
           \<and> ed_agentContext d = mounted_context \<and> ed_dailyCap d = Some (Some 250)
           \<and> ed_currentUsage d = Some (Some 250))"
proof (rule conjI)
  from preflight_errors_keep_context[OF example_env_fields(1), of no_redis 0 "''key''"
      "InputRecord [(''prompt'', ''hi'')]" mounted_context] no_redis_status
  show "\<exists>w' d. getAgent 0 example_env no_redis ''key'' (InputRecord [(''prompt'', ''hi'')])
               mounted_context = Some (w', [], Inr (ErrorDocument d))
           \<and> ed_agentContext d = mounted_context \<and> ed_redisError d = Some True"
    by blast
next
  from preflight_errors_keep_context[OF example_env_fields(1), of full_redis 0 "''key''"
      "InputRecord [(''prompt'', ''hi'')]" mounted_context] full_redis_status
  show "\<exists>w' d. getAgent 0 example_env full_redis ''key'' (InputRecord [(''prompt'', ''hi'')])
               mounted_context = Some (w', [], Inr (ErrorDocument d))
           \<and> ed_agentContext d = mounted_context \<and> ed_dailyCap d = Some (Some 250)
           \<and> ed_currentUsage d = Some (Some 250)"
    unfolding example_env_fields by metis
qed

section \<open>The orchestration loop\<close>

lemma runAgent_quiet:
  assumes "prepareAllTools env ctx = (log, Inr (tools, ctx1))"
    and "generateText env (conversation_history ctx1 @ [\<lparr> m_role = ''user'', m_content = input \<rparr>]) tools = Inr resp"
    and "mount_calls (g_steps resp) = []" "description_calls (g_steps resp) = []"
  shows "runAgent (Suc n) env key input ctx init =
     Some (log, Inr \<lparr> rr_answer = g_text resp, rr_steps = formatOutput env (g_steps resp) init,
                     rr_usage = g_usage resp,
                     rr_agentContext = ctx1\<lparr> conversation_history := conversation_history ctx1
                        @ [\<lparr> m_role = ''user'', m_content = input \<rparr>] @ g_messages resp \<rparr> \<rparr>)"
  using assms(1,2) detector_no_bootstrap[OF assms(3,4)]
  by (simp add: Let_def)

lemma sum_list_ones:
  "\<forall>x \<in> set xs. f x = (1::nat) \<Longrightarrow> sum_list (map f xs) = length xs"
  by (induction xs) simp_all

lemma sum_list_at_least_length:
  "(\<And>x. (1::nat) \<le> f x) \<Longrightarrow> length xs \<le> sum_list (map f xs)"
proof (induction xs)
  case Nil
  then show ?case by simp
next
  case (Cons x xs)
  then have "length xs \<le> sum_list (map f xs)" "1 \<le> f x" by simp_all
  then show ?case by simp
qed

lemma emitted_one:
  assumes "length (st_toolCalls s) \<le> 1" "\<not> decodes env s 0"
  shows "emitted_count env s = 1"
proof (cases "st_toolCalls s")
  case Nil
  then show ?thesis by (simp add: emitted_count_def)
next
  case (Cons c cs)
  with assms(1) have "cs = []" by simp
  with Cons assms(2) show ?thesis by (simp add: emitted_count_def)
qed


lemma example_prepare:
  "prepareAllTools example_env (fresh_context example_env ''key'')
     = (skyfire_log, Inr (skyfire_registry, fresh_context example_env ''key''))"
  by code_simp

lemma example_generate: "generateText example_env h t = Inr quiet_response"
  by (simp add: example_env_def quiet_model_def quiet_response_def)

lemma quiet_response_calls:
  "mount_calls (g_steps quiet_response) = []"
  "description_calls (g_steps quiet_response) = []"
  "length (g_steps quiet_response) = 1"
  by (simp_all add: quiet_response_def two_call_step_def mount_calls_def description_calls_def
      all_calls_def)

lemma quiet_response_format:
  "length (formatOutput example_env (g_steps quiet_response) []) = 2"
  by code_simp

text \<open>
  C1 (amended). When the registry build of a round succeeds and the stub model returns
  steps without a bootstrap tool call, \<open>runAgent\<close> returns after exactly one round: one
  round of fuel gives the result and more fuel gives the same result (no recursive call
  is made). The returned steps are the given steps followed by the formatter's output for
  the round: one entry for a step without tool calls, one entry for each tool call of
  the other steps, and one more for each token-issuing call whose outcome holds a token
  that decodes. So the number of returned steps is at least the number of the stub's
  steps, and equal to it when every step has at most one tool call and none of them
  produces a decoded token.
\<close>

theorem quiet_round_is_the_only_round:
  assumes "prepareAllTools env ctx = (log, Inr (tools, ctx1))"
    and "generateText env (conversation_history ctx1
           @ [\<lparr> m_role = ''user'', m_content = input \<rparr>]) tools = Inr resp"
    and "mount_calls (g_steps resp) = []" and "description_calls (g_steps resp) = []"
  shows "runAgent (Suc 0) env key input ctx init =
           Some (log, Inr \<lparr> rr_answer = g_text resp,
                           rr_steps = init @ formatOutput env (g_steps resp) [],
                           rr_usage = g_usage resp,
                           rr_agentContext = ctx1\<lparr> conversation_history :=
                              conversation_history ctx1
                              @ [\<lparr> m_role = ''user'', m_content = input \<rparr>]
                              @ g_messages resp \<rparr> \<rparr>)
       \<and> runAgent (Suc n) env key input ctx init = runAgent (Suc 0) env key input ctx init
       \<and> length (init @ formatOutput env (g_steps resp) [])
           = length init + sum_list (map (emitted_count env) (g_steps resp))
       \<and> length (g_steps resp) \<le> length (formatOutput env (g_steps resp) [])
       \<and> ((\<forall>s \<in> set (g_steps resp). length (st_toolCalls s) \<le> 1 \<and> \<not> decodes env s 0) \<longrightarrow>
            length (formatOutput env (g_steps resp) []) = length (g_steps resp))"
proof (intro conjI impI)
  show one: "runAgent (Suc 0) env key input ctx init =
           Some (log, Inr \<lparr> rr_answer = g_text resp,
                           rr_steps = init @ formatOutput env (g_steps resp) [],
                           rr_usage = g_usage resp,
                           rr_agentContext = ctx1\<lparr> conversation_history :=
                              conversation_history ctx1
                              @ [\<lparr> m_role = ''user'', m_content = input \<rparr>]
                              @ g_messages resp \<rparr> \<rparr>)"
    using runAgent_quiet[OF assms, of 0 key init] formatOutput_split[of env "g_steps resp" init]
    by simp
  show "runAgent (Suc n) env key input ctx init = runAgent (Suc 0) env key input ctx init"
    using runAgent_quiet[OF assms, of n key init] runAgent_quiet[OF assms, of 0 key init]
    by simp
  show "length (init @ formatOutput env (g_steps resp) [])
           = length init + sum_list (map (emitted_count env) (g_steps resp))"
    using formatOutput_length[of env "g_steps resp" "[]"] by simp
  have "\<And>s. 1 \<le> emitted_count env s"
    by (simp add: emitted_count_def Suc_leI)
  then have "length (g_steps resp) \<le> sum_list (map (emitted_count env) (g_steps resp))"
    by (rule sum_list_at_least_length)
  then show "length (g_steps resp) \<le> length (formatOutput env (g_steps resp) [])"
    using formatOutput_length[of env "g_steps resp" "[]"] by simp
next
  assume "\<forall>s \<in> set (g_steps resp). length (st_toolCalls s) \<le> 1 \<and> \<not> decodes env s 0"
  then have "\<forall>s \<in> set (g_steps resp). emitted_count env s = 1"
    using emitted_one by blast
  then have "sum_list (map (emitted_count env) (g_steps resp)) = length (g_steps resp)"
    by (rule sum_list_ones)
  then show "length (formatOutput env (g_steps resp) []) = length (g_steps resp)"
    using formatOutput_length[of env "g_steps resp" "[]"] by simp
qed

lemma plain_prepare:
  "prepareAllTools plain_env (fresh_context plain_env ''key'')
     = (skyfire_log, Inr (skyfire_registry, fresh_context plain_env ''key''))"
  by code_simp

lemma plain_generate: "generateText plain_env h t = Inr plain_response"
  by (simp add: plain_env_def)

lemma plain_response_calls:
  "mount_calls (g_steps plain_response) = []"
  "description_calls (g_steps plain_response) = []"
  "length (g_steps plain_response) = 2"
  by (simp_all add: plain_response_def thinking_step_def one_call_step_def mount_calls_def
      description_calls_def all_calls_def)

lemma plain_response_single:
  "\<forall>s \<in> set (g_steps plain_response). length (st_toolCalls s) \<le> 1 \<and> \<not> decodes plain_env s 0"
  by (simp add: plain_response_def thinking_step_def one_call_step_def decodes_def token_tools_def)

theorem quiet_round_is_the_only_round_witness:
  "runAgent (Suc 0) example_env ''key'' (Some ''hi'') (fresh_context example_env ''key'') []
     = Some (skyfire_log,
         Inr \<lparr> rr_answer = g_text quiet_response,
               rr_steps = [] @ formatOutput example_env (g_steps quiet_response) [],
               rr_usage = g_usage quiet_response,
               rr_agentContext = (fresh_context example_env ''key'')
                 \<lparr> conversation_history :=
                     conversation_history (fresh_context example_env ''key'')
                     @ [\<lparr> m_role = ''user'', m_content = Some ''hi'' \<rparr>]
                     @ g_messages quiet_response \<rparr> \<rparr>)
   \<and> runAgent (Suc 7) example_env ''key'' (Some ''hi'') (fresh_context example_env ''key'') []
     = runAgent (Suc 0) example_env ''key'' (Some ''hi'') (fresh_context example_env ''key'') []
   \<and> length (formatOutput plain_env (g_steps plain_response) []) = 2"
proof -
  note a = quiet_round_is_the_only_round[OF example_prepare example_generate
      quiet_response_calls(1,2), where input = "Some ''hi''" and key = "''key''"
      and init = "[]" and n = 7]
  note b = quiet_round_is_the_only_round[OF plain_prepare plain_generate
      plain_response_calls(1,2), where input = "Some ''hi''" and key = "''key''"
      and init = "[]" and n = 7]
  from b plain_response_single
  have "length (formatOutput plain_env (g_steps plain_response) []) = length (g_steps plain_response)"
    by blast
  with a show ?thesis by (simp only: plain_response_calls(3) simp_thms)
qed

theorem quiet_round_steps_counterexample:
  "generateText example_env
      (conversation_history (fresh_context example_env ''key'')
       @ [\<lparr> m_role = ''user'', m_content = Some ''hi'' \<rparr>]) skyfire_registry = Inr quiet_response
   \<and> mount_calls (g_steps quiet_response) = []
   \<and> description_calls (g_steps quiet_response) = []
   \<and> length (g_steps quiet_response) = 1
   \<and> map_option (map_sum id (length \<circ> rr_steps) \<circ> snd)
        (runAgent (Suc 0) example_env ''key'' (Some ''hi'') (fresh_context example_env ''key'') [])
       = Some (Inr 2)"
proof -
  have "map_option (map_sum id (length \<circ> rr_steps) \<circ> snd)
        (runAgent (Suc 0) example_env ''key'' (Some ''hi'') (fresh_context example_env ''key'') [])
       = Some (Inr (length (formatOutput example_env (g_steps quiet_response) [])))"
    using runAgent_quiet[OF example_prepare example_generate quiet_response_calls(1,2),
        where input = "Some ''hi''" and key = "''key''" and init = "[]" and n = 0]
    by simp
  then show ?thesis
    by (simp only: example_generate quiet_response_calls quiet_response_format simp_thms)
qed

section \<open>The registry builder\<close>

lemma connect_servers_attempts:
  "sv \<in> set svs \<Longrightarrow>
     ConnectStreamable (sv_url sv) \<in> set (fst (connect_servers env svs tools hist))
     \<or> isl (snd (connect_servers env svs tools hist))"
proof (induction svs arbitrary: tools hist)
  case Nil
  then show ?case by simp
next
  case (Cons a svs)
  show ?case
  proof (cases "case sv_url a of None \<Rightarrow> False | Some u \<Rightarrow> valid_url env u")
    case False
    then show ?thesis by simp
  next
    case True
    show ?thesis
    proof (cases "mcp_tools env a")
      case (Inl e)
      with True show ?thesis by simp
    next
      case (Inr toolSet)
      show ?thesis
      proof (cases "sv = a")
        case True
        with \<open>case sv_url a of None \<Rightarrow> False | Some u \<Rightarrow> valid_url env u\<close> Inr
        show ?thesis by (simp add: Let_def)
      next
        case False
        with Cons.prems have "sv \<in> set svs" by simp
        from Cons.IH[OF this] True Inr show ?thesis by (simp add: Let_def)
      qed
    qed
  qed
qed

lemma connect_servers_only:
  "ConnectStreamable u \<in> set (fst (connect_servers env svs tools hist)) \<Longrightarrow> u \<in> sv_url ` set svs"
proof (induction svs arbitrary: tools hist)
  case Nil
  then show ?case by simp
next
  case (Cons a svs)
  show ?case
  proof (cases "case sv_url a of None \<Rightarrow> False | Some u \<Rightarrow> valid_url env u")
    case False
    with Cons.prems show ?thesis by simp
  next
    case True
    show ?thesis
    proof (cases "mcp_tools env a")
      case (Inl e)
      with True Cons.prems show ?thesis by simp
    next
      case (Inr toolSet)
      with True Cons.prems Cons.IH show ?thesis by (auto simp: Let_def)
    qed
  qed
qed

lemma filter_servers_eq:
  "filter_servers svs = Inr ms \<Longrightarrow>
     ms = filter (\<lambda>sv. case sv_url sv of None \<Rightarrow> False | Some u \<Rightarrow> is_mcp_server_url u) svs"
proof (induction svs arbitrary: ms)
  case Nil
  then show ?case by simp
next
  case (Cons a svs)
  then show ?case by (auto split: option.splits sum.splits if_splits)
qed

lemma process_specs_no_connect:
  "ConnectStreamable u \<notin> set (fst (process_specs env rs tools))"
  by (induction rs arbitrary: tools) (auto simp: Let_def split: sum.splits)

lemma prepare_attempts:
  assumes "sv \<in> set (available_mcp_servers ctx @ dynamically_mounted_server ctx)"
    and "sv_url sv = Some u" and "is_mcp_server_url u"
  shows "ConnectStreamable (Some u) \<in> set (fst (prepareAllTools env ctx))
         \<or> isl (snd (prepareAllTools env ctx))"
proof (cases "process_specs env (openApiSpecs ctx) builtin_tools")
  case (Pair log1 r1)
  show ?thesis
  proof (cases r1)
    case (Inl e)
    with Pair show ?thesis by (simp add: prepareAllTools_def)
  next
    case (Inr allTools1)
    show ?thesis
    proof (cases "filter_servers (available_mcp_servers ctx @ dynamically_mounted_server ctx)")
      case (Inl e)
      with Pair \<open>r1 = Inr allTools1\<close> show ?thesis by (simp add: prepareAllTools_def)
    next
      case (Inr ms)
      from filter_servers_eq[OF Inr] assms have m: "sv \<in> set ms" by simp
      obtain log2 r2 where c: "connect_servers env ms allTools1 (conversation_history ctx) = (log2, r2)"
        by (cases "connect_servers env ms allTools1 (conversation_history ctx)")
      from connect_servers_attempts[OF m, of env allTools1 "conversation_history ctx"] c assms(2)
      have "ConnectStreamable (Some u) \<in> set log2 \<or> isl r2" by simp
      with Pair \<open>r1 = Inr allTools1\<close> Inr c show ?thesis
        by (cases r2) (auto simp: prepareAllTools_def)
    qed
  qed
qed

lemma prepare_only:
  assumes "ConnectStreamable (Some u) \<in> set (fst (prepareAllTools env ctx))"
  shows "is_mcp_server_url u
         \<and> Some u \<in> sv_url ` set (available_mcp_servers ctx @ dynamically_mounted_server ctx)"
proof (cases "process_specs env (openApiSpecs ctx) builtin_tools")
  case (Pair log1 r1)
  have n1: "ConnectStreamable (Some u) \<notin> set log1"
    using process_specs_no_connect[of "Some u" env "openApiSpecs ctx" builtin_tools] Pair by simp
  show ?thesis
  proof (cases r1)
    case (Inl e)
    with Pair assms n1 show ?thesis by (simp add: prepareAllTools_def)
  next
    case (Inr allTools1)
    show ?thesis
    proof (cases "filter_servers (available_mcp_servers ctx @ dynamically_mounted_server ctx)")
      case (Inl e)
      with Pair \<open>r1 = Inr allTools1\<close> assms n1 show ?thesis by (simp add: prepareAllTools_def)
    next
      case (Inr ms)
      obtain log2 r2 where c: "connect_servers env ms allTools1 (conversation_history ctx) = (log2, r2)"
        by (cases "connect_servers env ms allTools1 (conversation_history ctx)")
      from Pair \<open>r1 = Inr allTools1\<close> Inr c assms n1 have "ConnectStreamable (Some u) \<in> set log2"
        by (cases r2) (auto simp: prepareAllTools_def)
      with connect_servers_only[of "Some u" env ms allTools1 "conversation_history ctx"] c
      have "Some u \<in> sv_url ` set ms" by simp
      with filter_servers_eq[OF Inr] show ?thesis by (auto split: option.splits)
    qed
  qed
qed


lemma runAgent_recurses:
  assumes "prepareAllTools env ctx0 = (log1, Inr (tools, ctx1))"
    and "generateText env (conversation_history ctx1
           @ [\<lparr> m_role = ''user'', m_content = input \<rparr>]) tools = Inr resp"
    and "fst (checkAndUpdateAgentContextIfConnectionIsInitiated (g_steps resp)
           (ctx1\<lparr> conversation_history := conversation_history ctx1
                @ [\<lparr> m_role = ''user'', m_content = input \<rparr>] @ g_messages resp \<rparr>))"
    and "runAgent (Suc n) env key input ctx0 init = Some (log, res)"
  shows "\<exists>log' res'. runAgent n env key input
            (snd (checkAndUpdateAgentContextIfConnectionIsInitiated (g_steps resp)
               (ctx1\<lparr> conversation_history := conversation_history ctx1
                  @ [\<lparr> m_role = ''user'', m_content = input \<rparr>] @ g_messages resp \<rparr>)))
            (formatOutput env (g_steps resp) init) = Some (log', res')
          \<and> log = log1 @ log' \<and> (isl res' \<longrightarrow> isl res)"
  using assms
  by (auto simp: Let_def split: option.splits sum.splits prod.splits)

lemma runAgent_starts_with_build:
  assumes "runAgent (Suc n) env key input c fs = Some (lg, rs)"
  shows "(\<exists>rest. lg = fst (prepareAllTools env c) @ rest)
         \<and> (isl (snd (prepareAllTools env c)) \<longrightarrow> isl rs)"
proof (cases "prepareAllTools env c")
  case (Pair lg1 r1)
  show ?thesis
  proof (cases r1)
    case (Inl e)
    with Pair assms show ?thesis by auto
  next
    case (Inr tc)
    obtain tools ctx1 where tc: "tc = (tools, ctx1)" by (cases tc)
    show ?thesis
    proof (cases "generateText env (conversation_history ctx1
           @ [\<lparr> m_role = ''user'', m_content = input \<rparr>]) tools")
      case (Inl e)
      with Pair \<open>r1 = Inr tc\<close> tc assms show ?thesis by auto
    next
      case (Inr resp)
      with Pair \<open>r1 = Inr tc\<close> tc assms show ?thesis
        by (auto simp: Let_def split: option.splits sum.splits prod.splits if_splits)
    qed
  qed
qed

text \<open>
  C3 (amended). When the last server-mount call of a round has the argument
  \<open>mcpServerUrl = U\<close>, the context after the round has exactly the server \<open>U\<close> (with no
  headers) as its dynamically mounted server, so \<open>U\<close> is in the mounted-server sequence.
  If \<open>U\<close> passes the registry builder's filter (it does not end in \<open>.json\<close>, and it ends in
  \<open>/mcp\<close> or \<open>/sse\<close> or does not contain \<open>.json\<close>), the registry build on that context
  reaches the connection to \<open>U\<close> unless it throws first (a description that cannot be
  fetched, an earlier server that cannot be connected to, an invalid URL); if \<open>U\<close> does
  not pass the filter, no connection to \<open>U\<close> is attempted. In a run whose first round
  succeeds with these steps, the effects after the first round's build contain the
  connection to \<open>U\<close>, or the run ends in an error.
\<close>

theorem mounted_server_is_connected_next_round:
  assumes "mount_calls steps \<noteq> []"
    and "map_of (args (last (mount_calls steps))) ''mcpServerUrl'' = Some U"
  shows "dynamically_mounted_server (snd (checkAndUpdateAgentContextIfConnectionIsInitiated steps ctx))
           = [\<lparr> sv_url = Some U, sv_headers = [] \<rparr>]
       \<and> \<lparr> sv_url = Some U, sv_headers = [] \<rparr>
           \<in> set (available_mcp_servers (snd (checkAndUpdateAgentContextIfConnectionIsInitiated steps ctx))
                 @ dynamically_mounted_server
                     (snd (checkAndUpdateAgentContextIfConnectionIsInitiated steps ctx)))
       \<and> (is_mcp_server_url U \<longrightarrow>
            ConnectStreamable (Some U)
              \<in> set (fst (prepareAllTools env
                     (snd (checkAndUpdateAgentContextIfConnectionIsInitiated steps ctx))))
            \<or> isl (snd (prepareAllTools env
                     (snd (checkAndUpdateAgentContextIfConnectionIsInitiated steps ctx)))))
       \<and> (\<not> is_mcp_server_url U \<longrightarrow>
            ConnectStreamable (Some U)
              \<notin> set (fst (prepareAllTools env
                     (snd (checkAndUpdateAgentContextIfConnectionIsInitiated steps ctx)))))
       \<and> (\<forall>ctx0 log1 tools ctx1 resp log res.
            is_mcp_server_url U
            \<and> prepareAllTools env ctx0 = (log1, Inr (tools, ctx1))
            \<and> generateText env (conversation_history ctx1
                 @ [\<lparr> m_role = ''user'', m_content = input \<rparr>]) tools = Inr resp
            \<and> g_steps resp = steps
            \<and> ctx = ctx1\<lparr> conversation_history := conversation_history ctx1
                       @ [\<lparr> m_role = ''user'', m_content = input \<rparr>] @ g_messages resp \<rparr>
            \<and> runAgent (Suc (Suc n)) env key input ctx0 init = Some (log, res)
            \<longrightarrow> ConnectStreamable (Some U) \<in> set (drop (length log1) log) \<or> isl res)"
proof -
  let ?ctx' = "snd (checkAndUpdateAgentContextIfConnectionIsInitiated steps ctx)"
  have dyn: "dynamically_mounted_server ?ctx' = [\<lparr> sv_url = Some U, sv_headers = [] \<rparr>]"
    using assms by (simp add: detector_closed_form mounted_def)
  then have mem: "\<lparr> sv_url = Some U, sv_headers = [] \<rparr>
      \<in> set (available_mcp_servers ?ctx' @ dynamically_mounted_server ?ctx')"
    by simp
  have att: "ConnectStreamable (Some U) \<in> set (fst (prepareAllTools env ?ctx'))
             \<or> isl (snd (prepareAllTools env ?ctx'))" if "is_mcp_server_url U"
    using prepare_attempts[OF mem _ that, of env] by simp
  have skip: "ConnectStreamable (Some U) \<notin> set (fst (prepareAllTools env ?ctx'))"
    if "\<not> is_mcp_server_url U"
    using prepare_only[of U env ?ctx'] that by blast
  have run: "ConnectStreamable (Some U) \<in> set (drop (length log1) log) \<or> isl res"
    if h: "is_mcp_server_url U \<and> prepareAllTools env ctx0 = (log1, Inr (tools, ctx1))
         \<and> generateText env (conversation_history ctx1
                 @ [\<lparr> m_role = ''user'', m_content = input \<rparr>]) tools = Inr resp
         \<and> g_steps resp = steps
         \<and> ctx = ctx1\<lparr> conversation_history := conversation_history ctx1
                       @ [\<lparr> m_role = ''user'', m_content = input \<rparr>] @ g_messages resp \<rparr>
         \<and> runAgent (Suc (Suc n)) env key input ctx0 init = Some (log, res)"
    for ctx0 log1 tools ctx1 resp log res
  proof -
    from h have p: "prepareAllTools env ctx0 = (log1, Inr (tools, ctx1))"
      and g: "generateText env (conversation_history ctx1
                 @ [\<lparr> m_role = ''user'', m_content = input \<rparr>]) tools = Inr resp"
      and s: "g_steps resp = steps"
      and c: "ctx = ctx1\<lparr> conversation_history := conversation_history ctx1
                       @ [\<lparr> m_role = ''user'', m_content = input \<rparr>] @ g_messages resp \<rparr>"
      and r: "runAgent (Suc (Suc n)) env key input ctx0 init = Some (log, res)"
      and u: "is_mcp_server_url U"
      by (simp_all del: runAgent.simps)
    have d: "fst (checkAndUpdateAgentContextIfConnectionIsInitiated (g_steps resp)
           (ctx1\<lparr> conversation_history := conversation_history ctx1
                @ [\<lparr> m_role = ''user'', m_content = input \<rparr>] @ g_messages resp \<rparr>))"
      using assms(1) by (simp add: detector_closed_form s)
    from runAgent_recurses[OF p g d r] obtain log' res'
      where inner: "runAgent (Suc n) env key input ?ctx' (formatOutput env steps init)
                      = Some (log', res')"
        and lg: "log = log1 @ log'" and rs: "isl res' \<longrightarrow> isl res"
      unfolding s c[symmetric] by blast
    from runAgent_starts_with_build[OF inner] obtain rest
      where pre: "log' = fst (prepareAllTools env ?ctx') @ rest"
        and fail: "isl (snd (prepareAllTools env ?ctx')) \<longrightarrow> isl res'"
      by blast
    from att[OF u] show ?thesis
    proof
      assume "ConnectStreamable (Some U) \<in> set (fst (prepareAllTools env ?ctx'))"
      then show ?thesis by (simp add: lg pre)
    next
      assume "isl (snd (prepareAllTools env ?ctx'))"
      with fail rs show ?thesis by blast
    qed
  qed
  from dyn mem att skip run show ?thesis by blast
qed

lemma connect_step_calls:
  "mount_calls [connect_step] \<noteq> []"
  "map_of (args (last (mount_calls [connect_step]))) ''mcpServerUrl''
     = Some ''https://seller-b.example.com/mcp''"
  by (simp_all add: mount_calls_def all_calls_def connect_step_def)

lemma seller_b_url: "is_mcp_server_url ''https://seller-b.example.com/mcp''"
  by code_simp

lemma connect_step_build:
  "\<not> isl (snd (prepareAllTools example_env
      (snd (checkAndUpdateAgentContextIfConnectionIsInitiated [connect_step] mounted_context))))"
  by code_simp

lemma expanding_prepare:
  "prepareAllTools expanding_env (fresh_context expanding_env ''key'')
     = (skyfire_log, Inr (skyfire_registry, fresh_context expanding_env ''key''))"
  by code_simp

lemma expanding_generate:
  "generateText expanding_env h skyfire_registry = Inr connect_response"
  by (simp add: expanding_env_def expanding_model_def skyfire_registry_def)

lemma expanding_run:
  "case runAgent (Suc (Suc 0)) expanding_env ''key'' (Some ''hi'')
          (fresh_context expanding_env ''key'') [] of
     Some (log, Inr r) \<Rightarrow> True | _ \<Rightarrow> False"
  by code_simp

theorem mounted_server_is_connected_next_round_witness:
  "dynamically_mounted_server
     (snd (checkAndUpdateAgentContextIfConnectionIsInitiated [connect_step] mounted_context))
     = [seller_b]
   \<and> ConnectStreamable (Some ''https://seller-b.example.com/mcp'')
       \<in> set (fst (prepareAllTools example_env
             (snd (checkAndUpdateAgentContextIfConnectionIsInitiated [connect_step]
                     mounted_context))))
   \<and> (\<exists>log r. runAgent (Suc (Suc 0)) expanding_env ''key'' (Some ''hi'')
                  (fresh_context expanding_env ''key'') [] = Some (log, Inr r)
          \<and> ConnectStreamable (Some ''https://seller-b.example.com/mcp'')
              \<in> set (drop (length skyfire_log) log))"
proof (intro conjI)
  note a = mounted_server_is_connected_next_round[OF connect_step_calls,
      where ctx = mounted_context and env = example_env]
  from a show "dynamically_mounted_server
     (snd (checkAndUpdateAgentContextIfConnectionIsInitiated [connect_step] mounted_context))
     = [seller_b]"
    by (simp add: seller_b_def)
  from a seller_b_url connect_step_build
  show "ConnectStreamable (Some ''https://seller-b.example.com/mcp'')
       \<in> set (fst (prepareAllTools example_env
             (snd (checkAndUpdateAgentContextIfConnectionIsInitiated [connect_step]
                     mounted_context))))"
    by blast
next
  obtain log r where run: "runAgent (Suc (Suc 0)) expanding_env ''key'' (Some ''hi'')
                  (fresh_context expanding_env ''key'') [] = Some (log, Inr r)"
    using expanding_run
    by (cases "runAgent (Suc (Suc 0)) expanding_env ''key'' (Some ''hi'')
                  (fresh_context expanding_env ''key'') []")
       (auto simp del: runAgent.simps split: sum.splits prod.splits)
  let ?ctx = "(fresh_context expanding_env ''key'')
        \<lparr> conversation_history := conversation_history (fresh_context expanding_env ''key'')
            @ [\<lparr> m_role = ''user'', m_content = Some ''hi'' \<rparr>] @ g_messages connect_response \<rparr>"
  note b = mounted_server_is_connected_next_round[OF connect_step_calls,
      where ctx = ?ctx and env = expanding_env and input = "Some ''hi''" and key = "''key''"
      and n = 0 and init = "[]"]
  have s: "g_steps connect_response = [connect_step]" by (simp add: connect_response_def)
  from b seller_b_url expanding_prepare expanding_generate s run
  have "ConnectStreamable (Some ''https://seller-b.example.com/mcp'')
          \<in> set (drop (length skyfire_log) log) \<or> isl (Inr r :: js_error + run_result)"
    by blast
  then have "ConnectStreamable (Some ''https://seller-b.example.com/mcp'')
          \<in> set (drop (length skyfire_log) log)"
    by simp
  with run show "\<exists>log r. runAgent (Suc (Suc 0)) expanding_env ''key'' (Some ''hi'')
                  (fresh_context expanding_env ''key'') [] = Some (log, Inr r)
          \<and> ConnectStreamable (Some ''https://seller-b.example.com/mcp'')
              \<in> set (drop (length skyfire_log) log)"
    by blast
qed

theorem json_url_is_not_connected_counterexample:
  "mount_calls [json_mount_step] \<noteq> []
   \<and> map_of (args (last (mount_calls [json_mount_step]))) ''mcpServerUrl''
       = Some ''https://api.example.com/openapi.json''
   \<and> \<not> isl (snd (prepareAllTools example_env
         (snd (checkAndUpdateAgentContextIfConnectionIsInitiated [json_mount_step]
                 mounted_context))))
   \<and> ConnectStreamable (Some ''https://api.example.com/openapi.json'')
       \<notin> set (fst (prepareAllTools example_env
             (snd (checkAndUpdateAgentContextIfConnectionIsInitiated [json_mount_step]
                     mounted_context))))
   \<and> map_of (args (hd (mount_calls [two_mount_step]))) ''mcpServerUrl''
       = Some ''https://seller-a.example.com/mcp''
   \<and> seller_a \<notin> set (available_mcp_servers
           (snd (checkAndUpdateAgentContextIfConnectionIsInitiated [two_mount_step]
                   (fresh_context example_env ''key'')))
         @ dynamically_mounted_server
           (snd (checkAndUpdateAgentContextIfConnectionIsInitiated [two_mount_step]
                   (fresh_context example_env ''key''))))"
  by code_simp

end
